theory Spec2Isabelle
  imports Main "HOL-Library.Word"
begin

section \<open>Go values: nil pointers, byte slices, panics\<close>

text \<open>
  A Go pointer (\<^verbatim>\<open>*big.Int\<close>, \<^verbatim>\<open>*crypto.ECPoint\<close>, \<^verbatim>\<open>*ZKProof\<close>) is an
  \<open>option\<close>: \<open>None\<close> is \<^verbatim>\<open>nil\<close>. A \<^verbatim>\<open>*big.Int\<close> that is not nil is an unbounded
  \<open>int\<close>. A byte slice is a list of 8-bit words. A function that can panic returns an
  \<open>outcome\<close>: either the panic or the values the Go function returns.
\<close>

type_synonym byte = "8 word"

datatype panic =
    NilDereference
  | IndexOutOfRange
  | TypeAssertion
  | DivisionByZero
  | MakeSliceLen
  | BufferTooSmall
  | PanicMsg string

datatype 'a outcome = Panic panic | Return 'a

section \<open>Package schnorr: the proofs of knowledge\<close>

subsection \<open>The group primitive and the hash, called but not part of the sources\<close>

text \<open>
  Modelled from the spec: the struct \<^verbatim>\<open>crypto.ECPoint\<close> is declared outside the
  sources at hand. The spec's group element is a point of a fixed curve with two
  affine coordinates, read by the accessors \<^verbatim>\<open>X()\<close> and \<^verbatim>\<open>Y()\<close>; the fields
  \<open>coord_X\<close> and \<open>coord_Y\<close> are these two coordinates.
\<close>

record ECPoint =
  coord_X :: int
  coord_Y :: int

text \<open>
  The operations of the packages \<^verbatim>\<open>crypto\<close> and \<^verbatim>\<open>common\<close> that the proofs call are
  parameters, collected in one record and typed as the call sites use them:
  \<^item> \<open>curve_N\<close>, \<open>curve_Gx\<close>, \<open>curve_Gy\<close>: \<^verbatim>\<open>ec.Params().N\<close>, \<^verbatim>\<open>.Gx\<close>, \<^verbatim>\<open>.Gy\<close> of the
    curve \<^verbatim>\<open>X.Curve()\<close>;
  \<^item> \<open>ValidateBasic\<close>: \<^verbatim>\<open>p.ValidateBasic()\<close> on a receiver that is not nil (every call
    in the sources is guarded by a nil test);
  \<^item> \<open>ValidateBasicBJJ\<close>: \<^verbatim>\<open>X.ValidateBasicBJJ()\<close>, called on a pointer that was not
    tested, so it takes the pointer;
  \<^item> \<open>ScalarBaseMult\<close>, \<open>ScalarBaseMultBJJ\<close>: \<^verbatim>\<open>crypto.ScalarBaseMult(ec, k)\<close> and its
    BabyJubJub variant;
  \<^item> \<open>ScalarMult\<close>: \<^verbatim>\<open>p.ScalarMult(k)\<close>;
  \<^item> \<open>Add\<close>: \<^verbatim>\<open>p.Add(p1)\<close>, which returns a point or an error (\<open>Inl\<close>);
  \<^item> \<open>GetRandomPositiveInt\<close>: \<^verbatim>\<open>common.GetRandomPositiveInt(rand, q)\<close>, the value
    drawn from the randomness source \<open>rand\<close>;
  \<^item> \<open>SHA512_256i_TAGGED\<close>: the tagged hash of a session tag and a list of integers;
  \<^item> \<open>RejectionSample\<close>: \<^verbatim>\<open>common.RejectionSample(q, cHash)\<close>.
\<close>

record 'r crypto_env =
  curve_N :: int
  curve_Gx :: int
  curve_Gy :: int
  ValidateBasic :: "ECPoint \<Rightarrow> bool"
  ValidateBasicBJJ :: "ECPoint option \<Rightarrow> bool"
  ScalarBaseMult :: "int \<Rightarrow> ECPoint"
  ScalarBaseMultBJJ :: "int \<Rightarrow> ECPoint"
  ScalarMult :: "ECPoint \<Rightarrow> int \<Rightarrow> ECPoint"
  Add :: "ECPoint \<Rightarrow> ECPoint \<Rightarrow> string + ECPoint"
  GetRandomPositiveInt :: "'r \<Rightarrow> int \<Rightarrow> int"
  SHA512_256i_TAGGED :: "byte list \<Rightarrow> int list \<Rightarrow> int"
  RejectionSample :: "int \<Rightarrow> int \<Rightarrow> int"

text \<open>
  Modelled from the spec: \<^verbatim>\<open>crypto.NewECPointNoCurveCheck(ec, x, y)\<close> is outside the
  sources at hand; it builds the point with the given coordinates without validating it.
\<close>

definition NewECPointNoCurveCheck :: "int \<Rightarrow> int \<Rightarrow> ECPoint" where
  "NewECPointNoCurveCheck x y = \<lparr>coord_X = x, coord_Y = y\<rparr>"

text \<open>
  Modelled from the spec: \<^verbatim>\<open>common.ModInt(q).Add(a, t)\<close> is outside the sources at
  hand; the spec's response is \<open>a + c\<cdot>x (mod q)\<close>. Go's \<^verbatim>\<open>big.Int.Mod\<close> is the
  Euclidean modulus (a result in \<open>[0, |q|)\<close>) and panics on a zero modulus.
\<close>

definition ModInt_Add :: "int \<Rightarrow> int \<Rightarrow> int \<Rightarrow> int outcome" where
  "ModInt_Add q x y =
     (if q = 0 then Panic DivisionByZero else Return ((x + y) mod \<bar>q\<bar>))"

subsection \<open>The proof structs\<close>

text \<open>
  \<^verbatim>\<open>ZKProof {Alpha *crypto.ECPoint; T *big.Int}\<close> and
  \<^verbatim>\<open>ZKVProof {Alpha *crypto.ECPoint; T, U *big.Int}\<close>. The fields are prefixed because
  the two structs share their field names.
\<close>

record ZKProof =
  pf_Alpha :: "ECPoint option"
  pf_T :: "int option"

record ZKVProof =
  vpf_Alpha :: "ECPoint option"
  vpf_T :: "int option"
  vpf_U :: "int option"

subsection \<open>Constructors of the discrete-log proof\<close>

text \<open>
  The challenge of the discrete-log proof: the tagged hash of the session tag and the
  coordinates of \<open>X\<close>, \<open>g\<close> and \<open>alpha\<close>, passed through \<^verbatim>\<open>RejectionSample\<close>
  (the block that assigns \<^verbatim>\<open>c\<close> in \<^verbatim>\<open>NewZKProof\<close>, \<^verbatim>\<open>NewZKProofBJJ\<close> and
  \<^verbatim>\<open>ZKProof.Verify\<close>).
\<close>

definition challenge :: "'r crypto_env \<Rightarrow> byte list \<Rightarrow> ECPoint \<Rightarrow> ECPoint \<Rightarrow> int" where
  "challenge env Session Xp alpha =
     (let q = curve_N env;
          g = NewECPointNoCurveCheck (curve_Gx env) (curve_Gy env);
          cHash = SHA512_256i_TAGGED env Session
                    [coord_X Xp, coord_Y Xp, coord_X g, coord_Y g, coord_X alpha, coord_Y alpha]
      in RejectionSample env q cHash)"

text \<open>
  \<^verbatim>\<open>NewZKProof(Session, x, X, rand)\<close>. The \<^verbatim>\<open>fmt.Printf\<close> at its head writes to the
  standard output only and is left out.
\<close>

definition NewZKProof ::
  "'r crypto_env \<Rightarrow> byte list \<Rightarrow> int option \<Rightarrow> ECPoint option \<Rightarrow> 'r
     \<Rightarrow> (ZKProof option \<times> string option) outcome" where
  "NewZKProof env Session x X rand =
     (case x of
        None \<Rightarrow> Return (None, Some ''ZKProof constructor received nil or invalid value(s)'')
      | Some xv \<Rightarrow>
         (case X of
            None \<Rightarrow> Return (None, Some ''ZKProof constructor received nil or invalid value(s)'')
          | Some Xp \<Rightarrow>
             if \<not> ValidateBasic env Xp
             then Return (None, Some ''ZKProof constructor received nil or invalid value(s)'')
             else
               (let q = curve_N env;
                    a = GetRandomPositiveInt env rand q;
                    alpha = ScalarBaseMult env a;
                    c = challenge env Session Xp alpha;
                    t = c * xv
                in case ModInt_Add q a t of
                     Panic p \<Rightarrow> Panic p
                   | Return t' \<Rightarrow>
                       Return (Some \<lparr>pf_Alpha = Some alpha, pf_T = Some t'\<rparr>, None))))"

text \<open>
  \<^verbatim>\<open>NewZKProofBJJ(Session, x, X, rand)\<close>. Its only guard is
  \<^verbatim>\<open>!X.ValidateBasicBJJ()\<close>; the tests \<^verbatim>\<open>x == nil || X == nil\<close> are commented out in
  the source. After the guard, \<^verbatim>\<open>X.Curve()\<close> dereferences \<open>X\<close>, and
  \<^verbatim>\<open>new(big.Int).Mul(c, x)\<close> dereferences \<open>x\<close>: on a nil pointer each panics.
\<close>

definition NewZKProofBJJ ::
  "'r crypto_env \<Rightarrow> byte list \<Rightarrow> int option \<Rightarrow> ECPoint option \<Rightarrow> 'r
     \<Rightarrow> (ZKProof option \<times> string option) outcome" where
  "NewZKProofBJJ env Session x X rand =
     (if \<not> ValidateBasicBJJ env X
      then Return (None, Some ''BJJ ZKProof constructor received nil or invalid value(s)'')
      else
        (case X of
           None \<Rightarrow> Panic NilDereference
         | Some Xp \<Rightarrow>
            (let q = curve_N env;
                 a = GetRandomPositiveInt env rand q;
                 alpha = ScalarBaseMultBJJ env a;
                 c = challenge env Session Xp alpha
             in case x of
                  None \<Rightarrow> Panic NilDereference
                | Some xv \<Rightarrow>
                   (let t = c * xv
                    in case ModInt_Add q a t of
                         Panic p \<Rightarrow> Panic p
                       | Return t' \<Rightarrow>
                           Return (Some \<lparr>pf_Alpha = Some alpha, pf_T = Some t'\<rparr>, None)))))"

subsection \<open>Verification of the discrete-log proof\<close>

text \<open>\<^verbatim>\<open>(pf *ZKProof) ValidateBasic()\<close>: \<^verbatim>\<open>pf.T != nil && pf.Alpha != nil\<close>.\<close>

definition ZKProof_ValidateBasic :: "ZKProof \<Rightarrow> bool" where
  "ZKProof_ValidateBasic pf = (pf_T pf \<noteq> None \<and> pf_Alpha pf \<noteq> None)"

text \<open>
  \<^verbatim>\<open>(pf *ZKProof) Verify(Session, X)\<close>. \<open>X\<close> is dereferenced by \<^verbatim>\<open>X.Curve()\<close>
  without a nil test.
\<close>

definition ZKProof_Verify ::
  "'r crypto_env \<Rightarrow> ZKProof option \<Rightarrow> byte list \<Rightarrow> ECPoint option \<Rightarrow> bool outcome" where
  "ZKProof_Verify env pf Session X =
     (case pf of
        None \<Rightarrow> Return False
      | Some p \<Rightarrow>
         if \<not> ZKProof_ValidateBasic p then Return False
         else
           (case X of
              None \<Rightarrow> Panic NilDereference
            | Some Xp \<Rightarrow>
               (case (pf_Alpha p, pf_T p) of
                  (Some alpha, Some t) \<Rightarrow>
                    (let c = challenge env Session Xp alpha;
                         tG = ScalarBaseMult env t;
                         Xc = ScalarMult env Xp c
                     in case Add env alpha Xc of
                          Inl err \<Rightarrow> Return False
                        | Inr aXc \<Rightarrow>
                            Return (coord_X aXc = coord_X tG \<and> coord_Y aXc = coord_Y tG))
                | _ \<Rightarrow> Panic NilDereference)))"

subsection \<open>Verification of the dual-exponent proof\<close>

text \<open>
  \<^verbatim>\<open>(pf *ZKVProof) ValidateBasic()\<close>:
  \<^verbatim>\<open>pf.Alpha != nil && pf.T != nil && pf.U != nil && pf.Alpha.ValidateBasic()\<close>.
\<close>

definition ZKVProof_ValidateBasic :: "'r crypto_env \<Rightarrow> ZKVProof \<Rightarrow> bool" where
  "ZKVProof_ValidateBasic env pf =
     (case vpf_Alpha pf of
        None \<Rightarrow> False
      | Some alpha \<Rightarrow> vpf_T pf \<noteq> None \<and> vpf_U pf \<noteq> None \<and> ValidateBasic env alpha)"

text \<open>
  \<^verbatim>\<open>(pf *ZKVProof) Verify(Session, V, R)\<close>. The error of \<^verbatim>\<open>tR.Add(uG)\<close> is
  dropped (\<^verbatim>\<open>tRuG, _ :=\<close>); a failed addition leaves \<^verbatim>\<open>tRuG\<close> nil, and the final
  comparison, reached when \<^verbatim>\<open>pf.Alpha.Add(Vc)\<close> succeeds, dereferences it.
\<close>

definition challengeV ::
  "'r crypto_env \<Rightarrow> byte list \<Rightarrow> ECPoint \<Rightarrow> ECPoint \<Rightarrow> ECPoint \<Rightarrow> int" where
  "challengeV env Session V R alpha =
     (let q = curve_N env;
          g = NewECPointNoCurveCheck (curve_Gx env) (curve_Gy env);
          cHash = SHA512_256i_TAGGED env Session
                    [coord_X V, coord_Y V, coord_X R, coord_Y R,
                     coord_X g, coord_Y g, coord_X alpha, coord_Y alpha]
      in RejectionSample env q cHash)"

definition ZKVProof_Verify ::
  "'r crypto_env \<Rightarrow> ZKVProof option \<Rightarrow> byte list \<Rightarrow> ECPoint option \<Rightarrow> ECPoint option
     \<Rightarrow> bool outcome" where
  "ZKVProof_Verify env pf Session V R =
     (case pf of
        None \<Rightarrow> Return False
      | Some p \<Rightarrow>
         if \<not> ZKVProof_ValidateBasic env p then Return False
         else
           (case (V, R) of
              (Some Vp, Some Rp) \<Rightarrow>
                (case (vpf_Alpha p, vpf_T p, vpf_U p) of
                   (Some alpha, Some t, Some u) \<Rightarrow>
                     (let c = challengeV env Session Vp Rp alpha;
                          tR = ScalarMult env Rp t;
                          uG = ScalarBaseMult env u;
                          tRuG = Add env tR uG;
                          Vc = ScalarMult env Vp c
                      in case Add env alpha Vc of
                           Inl err \<Rightarrow> Return False
                         | Inr aVc \<Rightarrow>
                            (case tRuG of
                               Inl err \<Rightarrow> Panic NilDereference
                             | Inr s \<Rightarrow>
                                 Return (coord_X s = coord_X aVc \<and> coord_Y s = coord_Y aVc)))
                 | _ \<Rightarrow> Panic NilDereference)
            | _ \<Rightarrow> Panic NilDereference))"

section \<open>Package signing: round 3 of EdDSA signing\<close>

subsection \<open>Parties, messages and errors\<close>

text \<open>
  Modelled from the spec: the types of package \<^verbatim>\<open>tss\<close> (\<^verbatim>\<open>PartyID\<close>,
  \<^verbatim>\<open>ParsedMessage\<close>, \<^verbatim>\<open>Error\<close>) and the message structs of package \<^verbatim>\<open>signing\<close>
  are declared outside the sources at hand. A party identity carries its index in the
  session. A parsed message carries its sender, its broadcast flag and its content; the
  content is a closed union of the message kinds, so that the type assertions of the
  source (\<^verbatim>\<open>msg.Content().(*SignRound2Message)\<close>) are case distinctions. A round-2
  message is represented by what its two methods return: \<^verbatim>\<open>UnmarshalDeCommitment()\<close>
  (a list of integers) and \<^verbatim>\<open>UnmarshalZKProof(ec)\<close> (a proof pointer and an error).
  A round-3 message carries the signature share. A \<^verbatim>\<open>tss.Error\<close> carries its cause,
  the round number, the party that reports it and the culprits it names.
\<close>

record PartyID =
  pid_Id :: string
  pid_Index :: int

record SignRound2Message =
  r2_DeCommitment :: "int list"
  r2_ZKProof :: "ZKProof option \<times> string option"

datatype MessageContent =
    SignRound1Content int
  | SignRound2Content SignRound2Message
  | SignRound3Content int

record ParsedMessage =
  msg_From :: PartyID
  msg_IsBroadcast :: bool
  msg_Content :: MessageContent

record tss_Error =
  err_cause :: string
  err_round :: int
  err_victim :: PartyID
  err_culprits :: "PartyID list"

subsection \<open>The round object\<close>

text \<open>
  The fields of \<^verbatim>\<open>round3\<close> that \<^verbatim>\<open>Start\<close>, \<^verbatim>\<open>Update\<close> and \<^verbatim>\<open>NextRound\<close> read or
  write: the round number, the started flag, the acceptance table \<^verbatim>\<open>round.ok\<close>, the
  own identity \<^verbatim>\<open>round.PartyID()\<close>, the sorted identities \<^verbatim>\<open>round.Parties().IDs()\<close>,
  the randomness source \<^verbatim>\<open>round.Rand()\<close>, the public key \<^verbatim>\<open>round.key.EDDSAPub\<close>,
  the fields of \<^verbatim>\<open>round.temp\<close> and the channel \<^verbatim>\<open>round.out\<close> (the list of the messages
  sent on it, oldest first). The scalars and the public key, set when the party is
  created, are taken to be non-nil. An entry of a message slice is a
  \<^verbatim>\<open>tss.ParsedMessage\<close> interface value, \<open>None\<close> when nil.
\<close>

record 'r round3 =
  number :: int
  started :: bool
  ok :: "bool list"
  PartyID :: PartyID
  Parties_IDs :: "PartyID list"
  Rand :: 'r
  key_EDDSAPub :: ECPoint
  temp_ri :: int
  temp_wi :: int
  temp_m :: int
  temp_fullBytesLen :: int
  temp_ssid :: "byte list"
  temp_cjs :: "int list"
  temp_signRound2Messages :: "ParsedMessage option list"
  temp_signRound3Messages :: "ParsedMessage option list"
  temp_si :: "byte list option"
  temp_r :: "int option"
  out :: "ParsedMessage list"

subsection \<open>Operations called by the round but not part of the sources\<close>

text \<open>
  The operations of the curve library, of the commitment scheme, of the sponge hash and
  of the package's own helper file are parameters, typed as the call sites use them:
  \<^item> \<open>crypto\<close>: the parameters of package schnorr above, for \<^verbatim>\<open>proof.Verify\<close>;
  \<^item> \<open>bigIntToEncodedBytes\<close>, \<open>encodedBytesToBigInt\<close>, \<open>ecPointToEncodedBytes\<close>: the
    conversions between integers or points and 32-byte arrays;
  \<^item> \<open>GeScalarMultBase\<close>, \<open>ToBytes\<close>, \<open>ScReduce\<close>, \<open>ScMulAdd\<close>: the functions of
    \<^verbatim>\<open>edwards25519\<close> on the extended group elements \<open>'e\<close> and on scalars;
  \<^item> \<open>ecPointToExtendedElement\<close>: builds an extended element from two coordinates,
    drawing from the randomness source, which it returns advanced;
  \<^item> \<open>addExtendedElements\<close>: the sum of two extended elements;
  \<^item> \<open>AppendBigIntToBytesSlice\<close>: the per-peer session tag;
  \<^item> \<open>DeCommit\<close>: \<^verbatim>\<open>HashCommitDecommit{C, D}.DeCommit()\<close>, a flag and the revealed
    values;
  \<^item> \<open>NewECPoint\<close>: \<^verbatim>\<open>crypto.NewECPoint(ec, x, y)\<close>, a point pointer and an error;
  \<^item> \<open>EightInvEight\<close>: the cofactor-clearing correction, on a receiver that is not nil;
  \<^item> \<open>HashBytes\<close>: \<^verbatim>\<open>poseidon.HashBytes\<close>, a hash value or an error (\<open>Inl\<close>).
\<close>

record ('r, 'e) round_env =
  crypto :: "'r crypto_env"
  bigIntToEncodedBytes :: "int \<Rightarrow> byte list"
  encodedBytesToBigInt :: "byte list \<Rightarrow> int"
  ecPointToEncodedBytes :: "int \<Rightarrow> int \<Rightarrow> byte list"
  GeScalarMultBase :: "byte list \<Rightarrow> 'e"
  ToBytes :: "'e \<Rightarrow> byte list"
  ScReduce :: "byte list \<Rightarrow> byte list"
  ScMulAdd :: "byte list \<Rightarrow> byte list \<Rightarrow> byte list \<Rightarrow> byte list"
  ecPointToExtendedElement :: "int \<Rightarrow> int \<Rightarrow> 'r \<Rightarrow> 'e \<times> 'r"
  addExtendedElements :: "'e \<Rightarrow> 'e \<Rightarrow> 'e"
  AppendBigIntToBytesSlice :: "byte list \<Rightarrow> int \<Rightarrow> byte list"
  DeCommit :: "int \<Rightarrow> int list \<Rightarrow> bool \<times> int list"
  NewECPoint :: "int \<Rightarrow> int \<Rightarrow> ECPoint option \<times> string option"
  EightInvEight :: "ECPoint \<Rightarrow> ECPoint"
  HashBytes :: "byte list \<Rightarrow> string + int"

text \<open>
  Modelled from the spec: \<^verbatim>\<open>round.WrapError(err, culprits...)\<close> is outside the
  sources at hand; it builds the error of the round from a cause and the culprits
  passed to it, with the round number and the reporting party as context.
\<close>

definition WrapError :: "'r round3 \<Rightarrow> string \<Rightarrow> PartyID list \<Rightarrow> tss_Error" where
  "WrapError round cause culprits =
     \<lparr>err_cause = cause, err_round = number round,
      err_victim = PartyID round, err_culprits = culprits\<rparr>"

text \<open>
  Modelled from the spec: \<^verbatim>\<open>round.resetOK()\<close> is outside the sources at hand; it
  sets every slot of the acceptance table back to not accepted.
\<close>

definition resetOK :: "'r round3 \<Rightarrow> 'r round3" where
  "resetOK round = round\<lparr>ok := map (\<lambda>_. False) (ok round)\<rparr>"

text \<open>
  Modelled from the spec: \<^verbatim>\<open>NewSignRound3Message(from, si)\<close> is outside the sources
  at hand; it is the broadcast message that carries the sender and the share.
\<close>

definition NewSignRound3Message :: "PartyID \<Rightarrow> int \<Rightarrow> ParsedMessage" where
  "NewSignRound3Message from si =
     \<lparr>msg_From = from, msg_IsBroadcast = True, msg_Content = SignRound3Content si\<rparr>"

text \<open>
  Modelled from the spec: the method \<^verbatim>\<open>EightInvEight\<close> is outside the sources at
  hand. It is called on the pointer that \<^verbatim>\<open>NewECPoint\<close> returned, before the error is
  tested. The correction multiplies the receiver, so it reads the receiver's curve and
  coordinates: on a nil receiver that is a nil-pointer dereference.
\<close>

definition EightInvEight_ptr ::
  "('r, 'e) round_env \<Rightarrow> ECPoint option \<Rightarrow> ECPoint outcome" where
  "EightInvEight_ptr env p =
     (case p of
        None \<Rightarrow> Panic NilDereference
      | Some pt \<Rightarrow> Return (EightInvEight env pt))"

subsection \<open>Bytes of a big integer\<close>

text \<open>
  \<^verbatim>\<open>big.Int.Bytes()\<close> is the big-endian magnitude without leading zeros, the empty
  slice for zero. \<^verbatim>\<open>big.Int.FillBytes(buf)\<close> writes the magnitude into \<open>buf\<close>,
  zero-extended on the left, and panics when \<open>buf\<close> is too small.
\<close>

fun nat_Bytes :: "nat \<Rightarrow> byte list" where
  "nat_Bytes n = (if n = 0 then [] else nat_Bytes (n div 256) @ [word_of_nat (n mod 256)])"

declare nat_Bytes.simps [simp del]

definition big_Bytes :: "int \<Rightarrow> byte list" where
  "big_Bytes m = nat_Bytes (nat \<bar>m\<bar>)"

definition big_FillBytes :: "int \<Rightarrow> nat \<Rightarrow> byte list outcome" where
  "big_FillBytes m n =
     (let bs = big_Bytes m
      in if n < length bs then Panic BufferTooSmall
         else Return (replicate (n - length bs) 0 @ bs))"

text \<open>
  \<^verbatim>\<open>copy(dst, src)\<close> onto a slice \<open>dst\<close>: the first \<open>min (len dst) (len src)\<close>
  bytes of \<open>dst\<close> are overwritten.
\<close>

definition copy_bytes :: "byte list \<Rightarrow> byte list \<Rightarrow> byte list" where
  "copy_bytes dst src = take (length dst) src @ drop (length src) dst"

subsection \<open>flattenByteSlices\<close>

text \<open>
  The first loop adds the lengths up and panics at the first empty slice; the second
  copies every slice to its offset in a zeroed buffer of the total length.
\<close>

fun flatten_length :: "byte list list \<Rightarrow> nat \<Rightarrow> nat outcome" where
  "flatten_length [] totalLength = Return totalLength"
| "flatten_length (sl # slices) totalLength =
     (if length sl = 0 then Panic (PanicMsg ''empty slice detected in Poseidon inputs'')
      else flatten_length slices (totalLength + length sl))"

fun flatten_copy :: "byte list list \<Rightarrow> byte list \<Rightarrow> nat \<Rightarrow> byte list" where
  "flatten_copy [] flattened offset = flattened"
| "flatten_copy (sl # slices) flattened offset =
     flatten_copy slices
       (take offset flattened @ copy_bytes (drop offset flattened) sl)
       (offset + length sl)"

definition flattenByteSlices :: "byte list list \<Rightarrow> byte list outcome" where
  "flattenByteSlices slices =
     (case flatten_length slices 0 of
        Panic p \<Rightarrow> Panic p
      | Return totalLength \<Rightarrow> Return (flatten_copy slices (replicate totalLength 0) 0))"

subsection \<open>Start: the checks on one peer\<close>

text \<open>
  The three ways out of the loop over the parties: a panic, an error returned to the
  caller, or the value the loop went on with.
\<close>

datatype 'a loop_exit = Panicked panic | Failed tss_Error | Completed 'a

text \<open>
  The body of the loop for a peer \<open>j \<noteq> i\<close>, up to the verification of its proof: the
  per-peer session tag, the round-2 message of the peer (an index into the slice, a
  method call on the interface value and a type assertion, each of which can panic),
  the opening of its commitment, the reconstruction of its nonce point, the
  cofactor-clearing correction, and the proof. It yields the corrected point
  \<^verbatim>\<open>Rj\<close>, which is not nil once the correction has returned.
\<close>

definition check_peer ::
  "('r, 'e) round_env \<Rightarrow> 'r round3 \<Rightarrow> nat \<Rightarrow> PartyID \<Rightarrow> ECPoint loop_exit" where
  "check_peer env round j Pj =
     (let ContextJ = AppendBigIntToBytesSlice env (temp_ssid round) (int j)
      in if \<not> j < length (temp_signRound2Messages round) then Panicked IndexOutOfRange
         else
           (case temp_signRound2Messages round ! j of
              None \<Rightarrow> Panicked NilDereference
            | Some msg \<Rightarrow>
               (case msg_Content msg of
                  SignRound2Content r2msg \<Rightarrow>
                    if \<not> j < length (temp_cjs round) then Panicked IndexOutOfRange
                    else
                      (case DeCommit env (temp_cjs round ! j) (r2_DeCommitment r2msg) of
                         (okD, coordinates) \<Rightarrow>
                           if \<not> okD
                           then Failed (WrapError round ''de-commitment verify failed'' [])
                           else if length coordinates \<noteq> 2
                           then Failed (WrapError round
                                          ''length of de-commitment should be 2'' [])
                           else
                             (case NewECPoint env (coordinates ! 0) (coordinates ! 1) of
                                (Rj0, err) \<Rightarrow>
                                  (case EightInvEight_ptr env Rj0 of
                                     Panic p \<Rightarrow> Panicked p
                                   | Return Rj \<Rightarrow>
                                      (case err of
                                         Some e \<Rightarrow>
                                           Failed (WrapError round
                                                     (''NewECPoint(Rj): '' @ e) [Pj])
                                       | None \<Rightarrow>
                                          (case r2_ZKProof r2msg of
                                             (proof, err') \<Rightarrow>
                                               (case err' of
                                                  Some e' \<Rightarrow>
                                                    Failed (WrapError round
                                                      ''failed to unmarshal Rj proof'' [Pj])
                                                | None \<Rightarrow>
                                                   (case ZKProof_Verify (crypto env) proof
                                                           ContextJ (Some Rj) of
                                                      Panic p \<Rightarrow> Panicked p
                                                    | Return okV \<Rightarrow>
                                                       if \<not> okV
                                                       then Failed (WrapError round
                                                              ''failed to prove Rj'' [Pj])
                                                       else Completed Rj)))))))
                | _ \<Rightarrow> Panicked TypeAssertion)))"

subsection \<open>Start: the loop over the parties\<close>

text \<open>
  \<^verbatim>\<open>for j, Pj := range round.Parties().IDs()\<close>: the own index is skipped; a peer that
  passes the checks has its point turned into an extended element (which draws from
  the randomness source) and added to \<open>R\<close>. The loop returns the randomness source as
  it left it.
\<close>

fun peers_loop ::
  "('r, 'e) round_env \<Rightarrow> 'r round3 \<Rightarrow> nat \<Rightarrow> PartyID list \<Rightarrow> 'e \<Rightarrow> 'r
     \<Rightarrow> 'e loop_exit \<times> 'r" where
  "peers_loop env round j [] R rnd = (Completed R, rnd)"
| "peers_loop env round j (Pj # Ps) R rnd =
     (if int j = pid_Index (PartyID round) then peers_loop env round (Suc j) Ps R rnd
      else
        (case check_peer env round j Pj of
           Panicked p \<Rightarrow> (Panicked p, rnd)
         | Failed e \<Rightarrow> (Failed e, rnd)
         | Completed Rj \<Rightarrow>
            (case ecPointToExtendedElement env (coord_X Rj) (coord_Y Rj) rnd of
               (extendedRj, rnd') \<Rightarrow>
                 peers_loop env round (Suc j) Ps
                   (addExtendedElements env R extendedRj) rnd')))"

text \<open>
  Step 1 and the loop: \<open>R\<close> starts as the own nonce point, the base point multiplied
  by \<^verbatim>\<open>riBytes\<close>, and the loop adds the peers' points to it. \<open>round\<close> is the round
  object once \<^verbatim>\<open>Start\<close> has marked it started.
\<close>

definition aggregate_R :: "('r, 'e) round_env \<Rightarrow> 'r round3 \<Rightarrow> 'e loop_exit \<times> 'r" where
  "aggregate_R env round =
     (let riBytes = bigIntToEncodedBytes env (temp_ri round);
          R = GeScalarMultBase env riBytes
      in peers_loop env round 0 (Parties_IDs round) R (Rand round))"

subsection \<open>Start: the hash input and lambda\<close>

text \<open>
  The three segments of the hash input: the encoded \<open>R\<close>, the encoded public key, and
  the message, as \<^verbatim>\<open>m.Bytes()\<close> when \<^verbatim>\<open>fullBytesLen\<close> is zero and filled into a buffer
  of \<^verbatim>\<open>fullBytesLen\<close> bytes otherwise (\<^verbatim>\<open>make\<close> panics on a negative length).
\<close>

definition poseidonInputs ::
  "('r, 'e) round_env \<Rightarrow> 'r round3 \<Rightarrow> byte list \<Rightarrow> byte list list outcome" where
  "poseidonInputs env round encodedR =
     (let encodedPubKey = ecPointToEncodedBytes env (coord_X (key_EDDSAPub round))
                            (coord_Y (key_EDDSAPub round))
      in if temp_fullBytesLen round = 0
         then Return ([encodedR, encodedPubKey] @ [big_Bytes (temp_m round)])
         else if temp_fullBytesLen round < 0 then Panic MakeSliceLen
         else
           (case big_FillBytes (temp_m round) (nat (temp_fullBytesLen round)) of
              Panic p \<Rightarrow> Panic p
            | Return mBytes \<Rightarrow> Return ([encodedR, encodedPubKey] @ [mBytes])))"

text \<open>
  Step 7: the hash of the flattened input, copied into a 64-byte array and reduced to a
  scalar. \<open>Inl\<close> is the error of the hash function, \<open>Inr\<close> is \<^verbatim>\<open>lambdaReduced\<close>.
\<close>

definition reduced_lambda ::
  "('r, 'e) round_env \<Rightarrow> 'r round3 \<Rightarrow> byte list \<Rightarrow> (string + byte list) outcome" where
  "reduced_lambda env round encodedR =
     (case poseidonInputs env round encodedR of
        Panic p \<Rightarrow> Panic p
      | Return inputs \<Rightarrow>
         (case flattenByteSlices inputs of
            Panic p \<Rightarrow> Panic p
          | Return flattened \<Rightarrow>
             (case HashBytes env flattened of
                Inl err \<Rightarrow> Return (Inl err)
              | Inr poseidonHash \<Rightarrow>
                  (let lambda = copy_bytes (replicate 64 0) (big_Bytes poseidonHash)
                   in Return (Inr (ScReduce env lambda))))))"

subsection \<open>Start\<close>

text \<open>
  The head of \<^verbatim>\<open>Start\<close> after the started test: the round number, the started flag
  and the acceptance table.
\<close>

definition begin_round :: "'r round3 \<Rightarrow> 'r round3" where
  "begin_round round = resetOK (round\<lparr>number := 3, started := True\<rparr>)"

text \<open>
  \<^verbatim>\<open>(round *round3) Start()\<close> returns the round object as it leaves it and either a
  panic or the returned \<^verbatim>\<open>*tss.Error\<close> (\<open>None\<close> is nil). \<^verbatim>\<open>riBytes\<close>, computed
  once at step 1 in the source, is the same value at step 8. The send on \<^verbatim>\<open>round.out\<close>
  appends to the list of sent messages. The calls of the logger are left out.
\<close>

definition Start ::
  "('r, 'e) round_env \<Rightarrow> 'r round3 \<Rightarrow> 'r round3 \<times> tss_Error option outcome" where
  "Start env round0 =
     (if started round0
      then (round0, Return (Some (WrapError round0 ''round already started'' [])))
      else
        (let round1 = begin_round round0
         in case aggregate_R env round1 of
              (Panicked p, rnd) \<Rightarrow> (round1\<lparr>Rand := rnd\<rparr>, Panic p)
            | (Failed e, rnd) \<Rightarrow> (round1\<lparr>Rand := rnd\<rparr>, Return (Some e))
            | (Completed R, rnd) \<Rightarrow>
               (let round2 = round1\<lparr>Rand := rnd\<rparr>;
                    encodedR = ToBytes env R
                in case reduced_lambda env round2 encodedR of
                     Panic p \<Rightarrow> (round2, Panic p)
                   | Return (Inl err) \<Rightarrow>
                       (round2, Return (Some (WrapError round2
                                  (''Poseidon hashing failed: '' @ err) [])))
                   | Return (Inr lambdaReduced) \<Rightarrow>
                      (let riBytes = bigIntToEncodedBytes env (temp_ri round2);
                           localS = ScMulAdd env lambdaReduced
                                      (bigIntToEncodedBytes env (temp_wi round2)) riBytes;
                           round3 = round2\<lparr>temp_si := Some localS,
                                      temp_r := Some (encodedBytesToBigInt env encodedR)\<rparr>;
                           r3msg = NewSignRound3Message (PartyID round3)
                                     (encodedBytesToBigInt env localS);
                           i = pid_Index (PartyID round3)
                       in if 0 \<le> i \<and> nat i < length (temp_signRound3Messages round3)
                          then (round3\<lparr>temp_signRound3Messages :=
                                          (temp_signRound3Messages round3)
                                            [nat i := Some r3msg],
                                        out := out round3 @ [r3msg]\<rparr>,
                                Return None)
                          else (round3, Panic IndexOutOfRange)))))"

subsection \<open>Update, CanAccept, NextRound\<close>

text \<open>
  \<^verbatim>\<open>CanAccept\<close>: the content is a round-3 message and the message is a broadcast.
\<close>

definition CanAccept :: "ParsedMessage \<Rightarrow> bool" where
  "CanAccept msg =
     (case msg_Content msg of
        SignRound3Content s \<Rightarrow> msg_IsBroadcast msg
      | _ \<Rightarrow> False)"

text \<open>
  The loop of \<^verbatim>\<open>Update\<close> over \<^verbatim>\<open>round.temp.signRound3Messages\<close>, with the index
  \<open>j\<close>, the table \<^verbatim>\<open>round.ok\<close> and the flag \<^verbatim>\<open>ret\<close>. Reading \<^verbatim>\<open>round.ok[j]\<close>
  beyond the table panics.
\<close>

fun Update_loop ::
  "nat \<Rightarrow> ParsedMessage option list \<Rightarrow> bool list \<Rightarrow> bool \<Rightarrow> bool list \<times> bool outcome" where
  "Update_loop j [] oks ret = (oks, Return ret)"
| "Update_loop j (msg # msgs) oks ret =
     (if \<not> j < length oks then (oks, Panic IndexOutOfRange)
      else if oks ! j then Update_loop (Suc j) msgs oks ret
      else
        (case msg of
           None \<Rightarrow> Update_loop (Suc j) msgs oks False
         | Some m \<Rightarrow>
            if \<not> CanAccept m then Update_loop (Suc j) msgs oks False
            else Update_loop (Suc j) msgs (oks[j := True]) ret))"

definition Update :: "'r round3 \<Rightarrow> 'r round3 \<times> (bool \<times> tss_Error option) outcome" where
  "Update round =
     (case Update_loop 0 (temp_signRound3Messages round) (ok round) True of
        (oks, Panic p) \<Rightarrow> (round\<lparr>ok := oks\<rparr>, Panic p)
      | (oks, Return ret) \<Rightarrow> (round\<lparr>ok := oks\<rparr>, Return (ret, None)))"

text \<open>
  \<^verbatim>\<open>NextRound\<close> clears the started flag and wraps the round object into the
  finalization round; the result is that round object.
\<close>

definition NextRound :: "'r round3 \<Rightarrow> 'r round3" where
  "NextRound round = round\<lparr>started := False\<rparr>"

section \<open>What the proofs assume of the group primitive\<close>

text \<open>
  The spec takes the curve arithmetic as correct. Two predicates say what that means
  for the parameters. A scalar is a non-negative integer.

  \<open>group_laws\<close>: the order \<open>q\<close> is positive; multiples of the base point add up;
  a multiple of a multiple of the base point is the multiple by the product; the base
  point has order \<open>q\<close>; the sampled blinding scalar and the challenge are not negative.
\<close>

definition group_laws :: "'r crypto_env \<Rightarrow> bool" where
  "group_laws env \<longleftrightarrow>
     0 < curve_N env \<and>
     (\<forall>a b. 0 \<le> a \<and> 0 \<le> b \<longrightarrow>
        Add env (ScalarBaseMult env a) (ScalarBaseMult env b)
          = Inr (ScalarBaseMult env (a + b))) \<and>
     (\<forall>k c. 0 \<le> k \<and> 0 \<le> c \<longrightarrow>
        ScalarMult env (ScalarBaseMult env k) c = ScalarBaseMult env (c * k)) \<and>
     (\<forall>k. 0 \<le> k \<longrightarrow> ScalarBaseMult env (k mod curve_N env) = ScalarBaseMult env k) \<and>
     (\<forall>rand. 0 \<le> GetRandomPositiveInt env rand (curve_N env)) \<and>
     (\<forall>h. 0 \<le> RejectionSample env (curve_N env) h)"

text \<open>
  \<open>curve_closed\<close>: the operations on validated points yield validated points, and the
  sum of two validated points exists.
\<close>

definition curve_closed :: "'r crypto_env \<Rightarrow> bool" where
  "curve_closed env \<longleftrightarrow>
     (\<forall>k. ValidateBasic env (ScalarBaseMult env k)) \<and>
     (\<forall>p k. ValidateBasic env p \<longrightarrow> ValidateBasic env (ScalarMult env p k)) \<and>
     (\<forall>p p1. ValidateBasic env p \<and> ValidateBasic env p1
        \<longrightarrow> (\<exists>s. Add env p p1 = Inr s \<and> ValidateBasic env s))"

text \<open>A message slot that \<^verbatim>\<open>Update\<close> accepts: not nil and passing \<^verbatim>\<open>CanAccept\<close>.\<close>

definition acceptable :: "ParsedMessage option \<Rightarrow> bool" where
  "acceptable msg = (case msg of None \<Rightarrow> False | Some m \<Rightarrow> CanAccept m)"

section \<open>A small instance: the integers modulo 7\<close>

text \<open>
  An instance of the parameters on which the definitions compute: the group is the
  additive group of the integers modulo 7, a point is \<open>(k, 0)\<close> with \<open>0 \<le> k < 7\<close>, the
  base point is \<open>(1, 0)\<close>. The hash adds up its inputs. An extended element is a pair of
  a value and a representation factor; the factor comes from the randomness source and
  the encoding ignores it. A commitment is the sum of the salt and the committed values.
\<close>

definition Z7_valid :: "ECPoint \<Rightarrow> bool" where
  "Z7_valid p = (0 \<le> coord_X p \<and> coord_X p < 7 \<and> coord_Y p = 0)"

definition byte_val :: "byte list \<Rightarrow> int" where
  "byte_val bs = sum_list (map uint bs)"

definition Z7_crypto :: "int crypto_env" where
  "Z7_crypto =
     \<lparr>curve_N = 7, curve_Gx = 1, curve_Gy = 0,
      ValidateBasic = Z7_valid,
      ValidateBasicBJJ = (\<lambda>p. case p of None \<Rightarrow> False | Some pt \<Rightarrow> Z7_valid pt),
      ScalarBaseMult = (\<lambda>k. \<lparr>coord_X = k mod 7, coord_Y = 0\<rparr>),
      ScalarBaseMultBJJ = (\<lambda>k. \<lparr>coord_X = k mod 7, coord_Y = 0\<rparr>),
      ScalarMult = (\<lambda>p k. \<lparr>coord_X = (k * coord_X p) mod 7, coord_Y = 0\<rparr>),
      Add = (\<lambda>p p1. if Z7_valid p \<and> Z7_valid p1
                      then Inr \<lparr>coord_X = (coord_X p + coord_X p1) mod 7, coord_Y = 0\<rparr>
                      else Inl ''point not on the curve''),
      GetRandomPositiveInt = (\<lambda>rand q. rand mod q),
      SHA512_256i_TAGGED = (\<lambda>Session xs. sum_list xs + byte_val Session),
      RejectionSample = (\<lambda>q h. h mod q)\<rparr>"

definition Z7_round_env :: "(int, int \<times> int) round_env" where
  "Z7_round_env =
     \<lparr>crypto = Z7_crypto,
      bigIntToEncodedBytes = (\<lambda>k. [word_of_int k]),
      encodedBytesToBigInt = byte_val,
      ecPointToEncodedBytes = (\<lambda>x y. [word_of_int x, word_of_int y]),
      GeScalarMultBase = (\<lambda>bs. (byte_val bs mod 7, 1)),
      ToBytes = (\<lambda>e. [word_of_int (fst e mod 7)]),
      ScReduce = (\<lambda>bs. [word_of_int (byte_val bs mod 7)]),
      ScMulAdd = (\<lambda>a b c. [word_of_int ((byte_val a * byte_val b + byte_val c) mod 7)]),
      ecPointToExtendedElement = (\<lambda>x y rnd. ((x mod 7, rnd), rnd + 1)),
      addExtendedElements = (\<lambda>a b. (fst a + fst b, snd a * snd b)),
      AppendBigIntToBytesSlice = (\<lambda>ssid j. ssid @ [word_of_int j]),
      DeCommit = (\<lambda>C D. if D \<noteq> [] \<and> sum_list D = C then (True, tl D) else (False, [])),
      NewECPoint = (\<lambda>x y. if Z7_valid \<lparr>coord_X = x, coord_Y = y\<rparr>
                            then (Some \<lparr>coord_X = x, coord_Y = y\<rparr>, None)
                            else (None, Some ''the given point is not on the elliptic curve'')),
      EightInvEight = (\<lambda>p. ScalarMult Z7_crypto (ScalarMult Z7_crypto p 8) 1),
      HashBytes = (\<lambda>bs. Inr (byte_val bs))\<rparr>"

text \<open>
  The round-2 message of party \<open>j\<close>: it reveals the salt 9 and the point \<open>(x, y)\<close>, and
  carries the proof \<open>(alpha, t)\<close> with \<open>alpha = (a, 0)\<close>.
\<close>

definition Z7_r2msg :: "int \<Rightarrow> int \<Rightarrow> int \<Rightarrow> int \<Rightarrow> int \<Rightarrow> ParsedMessage option" where
  "Z7_r2msg j x y a t =
     Some \<lparr>msg_From = \<lparr>pid_Id = ''P'', pid_Index = j\<rparr>, msg_IsBroadcast = True,
           msg_Content = SignRound2Content
             \<lparr>r2_DeCommitment = [9, x, y],
              r2_ZKProof = (Some \<lparr>pf_Alpha = Some \<lparr>coord_X = a, coord_Y = 0\<rparr>,
                                  pf_T = Some t\<rparr>, None)\<rparr>\<rparr>"

text \<open>
  A session of three parties with the nonces 2, 4 and 6, hence the nonce points
  \<open>(2, 0)\<close>, \<open>(4, 0)\<close> and \<open>(6, 0)\<close>, their commitments 11, 13 and 15 and their proofs
  under the session tags \<open>[7, j]\<close>. \<open>Z7_party i ri rnd\<close> is the round object of party
  \<open>i\<close> with nonce \<open>ri\<close> and randomness source \<open>rnd\<close>, before \<^verbatim>\<open>Start\<close>.
\<close>

definition Z7_party :: "int \<Rightarrow> int \<Rightarrow> int \<Rightarrow> int round3" where
  "Z7_party i ri rnd =
     \<lparr>number = 2, started = False, ok = [True, True, True],
      PartyID = \<lparr>pid_Id = ''P'', pid_Index = i\<rparr>,
      Parties_IDs = [\<lparr>pid_Id = ''P'', pid_Index = 0\<rparr>, \<lparr>pid_Id = ''P'', pid_Index = 1\<rparr>,
                     \<lparr>pid_Id = ''P'', pid_Index = 2\<rparr>],
      Rand = rnd,
      key_EDDSAPub = \<lparr>coord_X = 3, coord_Y = 0\<rparr>,
      temp_ri = ri, temp_wi = 1, temp_m = 5, temp_fullBytesLen = 0, temp_ssid = [7],
      temp_cjs = [11, 13, 15],
      temp_signRound2Messages = [Z7_r2msg 0 2 0 3 1, Z7_r2msg 1 4 0 5 0, Z7_r2msg 2 6 0 1 5],
      temp_signRound3Messages = [None, None, None],
      temp_si = None, temp_r = None, out = []\<rparr>"

text \<open>The same party when peer 1 sent a commitment that its decommitment does not open.\<close>

definition Z7_party_bad_commitment :: "int round3" where
  "Z7_party_bad_commitment = (Z7_party 0 2 100)\<lparr>temp_cjs := [11, 14, 15]\<rparr>"

text \<open>
  The same party when peer 1 committed to \<open>(5, 5)\<close>, which is not a point, and opened
  its commitment correctly.
\<close>

definition Z7_party_bad_point :: "int round3" where
  "Z7_party_bad_point =
     (Z7_party 0 2 100)\<lparr>temp_cjs := [11, 19, 15],
        temp_signRound2Messages :=
          [Z7_r2msg 0 2 0 3 1, Z7_r2msg 1 5 5 5 0, Z7_r2msg 2 6 0 1 5]\<rparr>"

text \<open>The same party when the message is zero and has no declared length.\<close>

definition Z7_party_zero_message :: "int round3" where
  "Z7_party_zero_message = (Z7_party 0 2 100)\<lparr>temp_m := 0\<rparr>"

text \<open>
  A round object after \<^verbatim>\<open>Start\<close> that has received the share of party 0, nothing from
  party 1, whose slot is accepted already, and a message of party 2 that is not a
  broadcast.
\<close>

definition Z7_collecting :: "int round3" where
  "Z7_collecting =
     (Z7_party 1 4 200)\<lparr>number := 3, started := True, ok := [False, True, False],
        temp_signRound3Messages :=
          [Some (NewSignRound3Message \<lparr>pid_Id = ''P'', pid_Index = 0\<rparr> 1),
           None,
           Some ((NewSignRound3Message \<lparr>pid_Id = ''P'', pid_Index = 2\<rparr> 4)
                   \<lparr>msg_IsBroadcast := False\<rparr>)]\<rparr>"

lemmas Z7_defs =
  Z7_party_def Z7_r2msg_def Z7_round_env_def Z7_crypto_def Z7_valid_def byte_val_def

section \<open>The discrete-log proof\<close>

subsection \<open>The instance satisfies the assumptions\<close>

lemma Z7_group_laws: "group_laws Z7_crypto"
  unfolding group_laws_def Z7_crypto_def Z7_valid_def
  by (simp add: mod_simps)

lemma Z7_curve_closed: "curve_closed Z7_crypto"
  unfolding curve_closed_def Z7_crypto_def Z7_valid_def by simp

subsection \<open>Completeness\<close>

text \<open>
  Claim C1. For every scalar \<open>x\<close>, every valid group element \<open>X = g^x\<close>, every session
  tag and every randomness source, \<^verbatim>\<open>NewZKProof\<close> succeeds and \<^verbatim>\<open>Verify\<close> accepts the
  proof it returns. Here \<open>g^x\<close> is \<open>ScalarBaseMult env x\<close>, and the group primitive
  satisfies \<open>group_laws\<close>.
\<close>

theorem NewZKProof_Verify_complete:
  assumes laws: "group_laws env"
    and x: "0 \<le> x"
    and X: "X = ScalarBaseMult env x"
    and valid: "ValidateBasic env X"
  shows "\<exists>pf. NewZKProof env Session (Some x) (Some X) rand = Return (Some pf, None)
              \<and> ZKProof_Verify env (Some pf) Session (Some X) = Return True"
proof -
  define q where "q = curve_N env"
  define a where "a = GetRandomPositiveInt env rand q"
  define alpha where "alpha = ScalarBaseMult env a"
  define c where "c = challenge env Session X alpha"
  define t where "t = (a + c * x) mod q"
  have q: "0 < q" and a: "0 \<le> a" and c: "0 \<le> c"
    using laws unfolding group_laws_def q_def a_def c_def challenge_def Let_def by auto
  have new: "NewZKProof env Session (Some x) (Some X) rand
               = Return (Some \<lparr>pf_Alpha = Some alpha, pf_T = Some t\<rparr>, None)"
    using valid q
    by (simp add: NewZKProof_def ModInt_Add_def Let_def q_def a_def alpha_def c_def t_def)
  have cx: "0 \<le> c * x" using c x by simp
  have tG: "ScalarBaseMult env t = ScalarBaseMult env (a + c * x)"
    using laws a cx unfolding group_laws_def t_def q_def by simp
  have Xc: "ScalarMult env X c = ScalarBaseMult env (c * x)"
    using laws x c unfolding group_laws_def X by simp
  have sum: "Add env alpha (ScalarMult env X c) = Inr (ScalarBaseMult env (a + c * x))"
    using laws a cx unfolding group_laws_def alpha_def Xc by simp
  have "ZKProof_Verify env (Some \<lparr>pf_Alpha = Some alpha, pf_T = Some t\<rparr>) Session (Some X)
          = Return True"
    using sum tG by (simp add: ZKProof_Verify_def ZKProof_ValidateBasic_def Let_def c_def)
  with new show ?thesis by blast
qed

text \<open>
  Witness of C1 on the instance: the scalar 3, the point \<open>(3, 0)\<close>, the session tag
  \<open>[1, 2]\<close> and the randomness source 5.
\<close>

theorem NewZKProof_Verify_complete_witness:
  "group_laws Z7_crypto \<and> (0::int) \<le> 3
   \<and> \<lparr>coord_X = 3, coord_Y = 0\<rparr> = ScalarBaseMult Z7_crypto 3
   \<and> ValidateBasic Z7_crypto \<lparr>coord_X = 3, coord_Y = 0\<rparr>
   \<and> (\<exists>pf. NewZKProof Z7_crypto [1, 2] (Some 3) (Some \<lparr>coord_X = 3, coord_Y = 0\<rparr>) 5
               = Return (Some pf, None)
            \<and> ZKProof_Verify Z7_crypto (Some pf) [1, 2] (Some \<lparr>coord_X = 3, coord_Y = 0\<rparr>)
               = Return True)"
proof -
  have X: "\<lparr>coord_X = 3, coord_Y = 0\<rparr> = ScalarBaseMult Z7_crypto 3"
    by (simp add: Z7_crypto_def)
  have v: "ValidateBasic Z7_crypto \<lparr>coord_X = 3, coord_Y = 0\<rparr>"
    by (simp add: Z7_crypto_def Z7_valid_def)
  have x: "(0::int) \<le> 3" by simp
  from NewZKProof_Verify_complete [OF Z7_group_laws x X v, of "[1, 2]" 5] Z7_group_laws X v x
  show ?thesis by blast
qed

subsection \<open>What Verify decides\<close>

text \<open>
  Claim C2. For every session tag, valid group element \<open>X\<close> and proof \<open>pf\<close>,
  \<^verbatim>\<open>ZKProof.Verify\<close> returns false when \<open>pf\<close> is nil or one of its fields is nil, and
  otherwise returns true exactly when the sum \<open>Alpha + [c]X\<close> exists and has the two
  coordinates of \<open>g^T\<close>, where \<open>c\<close> is \<^verbatim>\<open>RejectionSample\<close> of the tagged hash of the
  session tag and the coordinates of \<open>X\<close>, \<open>g\<close> and \<open>Alpha\<close>.
\<close>

theorem ZKProof_Verify_accepts_iff:
  "(ZKProof_Verify env None Session (Some X) = Return False)
   \<and> (\<forall>p. pf_Alpha p = None \<or> pf_T p = None
          \<longrightarrow> ZKProof_Verify env (Some p) Session (Some X) = Return False)
   \<and> (\<forall>p alpha t. pf_Alpha p = Some alpha \<and> pf_T p = Some t
          \<longrightarrow> ZKProof_Verify env (Some p) Session (Some X)
              = Return (\<exists>s. Add env alpha
                               (ScalarMult env X
                                  (RejectionSample env (curve_N env)
                                     (SHA512_256i_TAGGED env Session
                                        [coord_X X, coord_Y X, curve_Gx env, curve_Gy env,
                                         coord_X alpha, coord_Y alpha]))) = Inr s
                            \<and> coord_X s = coord_X (ScalarBaseMult env t)
                            \<and> coord_Y s = coord_Y (ScalarBaseMult env t)))"
  by (auto simp: ZKProof_Verify_def ZKProof_ValidateBasic_def challenge_def
        NewECPointNoCurveCheck_def Let_def split: sum.splits)

text \<open>
  Witness of C2 on the instance: under the tag \<open>[7, 0]\<close> and for \<open>X = (2, 0)\<close>, a proof
  without response is rejected, the proof \<open>((3, 0), 1)\<close> is accepted and the proof
  \<open>((3, 0), 2)\<close> is rejected.
\<close>

theorem ZKProof_Verify_accepts_iff_witness:
  "ZKProof_Verify Z7_crypto (Some \<lparr>pf_Alpha = Some \<lparr>coord_X = 3, coord_Y = 0\<rparr>, pf_T = None\<rparr>)
     [7, 0] (Some \<lparr>coord_X = 2, coord_Y = 0\<rparr>) = Return False
   \<and> ZKProof_Verify Z7_crypto
       (Some \<lparr>pf_Alpha = Some \<lparr>coord_X = 3, coord_Y = 0\<rparr>, pf_T = Some 1\<rparr>)
       [7, 0] (Some \<lparr>coord_X = 2, coord_Y = 0\<rparr>) = Return True
   \<and> ZKProof_Verify Z7_crypto
       (Some \<lparr>pf_Alpha = Some \<lparr>coord_X = 3, coord_Y = 0\<rparr>, pf_T = Some 2\<rparr>)
       [7, 0] (Some \<lparr>coord_X = 2, coord_Y = 0\<rparr>) = Return False"
proof -
  note spec = ZKProof_Verify_accepts_iff [of Z7_crypto "[7, 0]" "\<lparr>coord_X = 2, coord_Y = 0\<rparr>"]
  have nil_field: "ZKProof_Verify Z7_crypto
          (Some \<lparr>pf_Alpha = Some \<lparr>coord_X = 3, coord_Y = 0\<rparr>, pf_T = None\<rparr>)
          [7, 0] (Some \<lparr>coord_X = 2, coord_Y = 0\<rparr>) = Return False"
    using spec by simp
  have accepted: "ZKProof_Verify Z7_crypto
          (Some \<lparr>pf_Alpha = Some \<lparr>coord_X = 3, coord_Y = 0\<rparr>, pf_T = Some 1\<rparr>)
          [7, 0] (Some \<lparr>coord_X = 2, coord_Y = 0\<rparr>) = Return True"
    using spec [THEN conjunct2, THEN conjunct2, rule_format,
                of "\<lparr>pf_Alpha = Some \<lparr>coord_X = 3, coord_Y = 0\<rparr>, pf_T = Some 1\<rparr>"
                   "\<lparr>coord_X = 3, coord_Y = 0\<rparr>" 1]
    by (simp add: Z7_crypto_def Z7_valid_def byte_val_def)
  have rejected: "ZKProof_Verify Z7_crypto
          (Some \<lparr>pf_Alpha = Some \<lparr>coord_X = 3, coord_Y = 0\<rparr>, pf_T = Some 2\<rparr>)
          [7, 0] (Some \<lparr>coord_X = 2, coord_Y = 0\<rparr>) = Return False"
    using spec [THEN conjunct2, THEN conjunct2, rule_format,
                of "\<lparr>pf_Alpha = Some \<lparr>coord_X = 3, coord_Y = 0\<rparr>, pf_T = Some 2\<rparr>"
                   "\<lparr>coord_X = 3, coord_Y = 0\<rparr>" 2]
    by (simp add: Z7_crypto_def Z7_valid_def byte_val_def)
  from nil_field accepted rejected show ?thesis by blast
qed

section \<open>The dual-exponent proof\<close>

text \<open>
  Claim C3. For every session tag, group elements \<open>V\<close> and \<open>R\<close> and proof \<open>pf\<close>,
  \<^verbatim>\<open>ZKVProof.Verify\<close> returns false when \<open>pf\<close> is nil, one of \<open>Alpha\<close>, \<open>T\<close>, \<open>U\<close> is
  nil or \<open>Alpha\<close> fails validation, and otherwise returns true exactly when
  \<open>[T]R + [U]g\<close> and \<open>Alpha + [c]V\<close> have the same two coordinates, where \<open>c\<close> is
  \<^verbatim>\<open>RejectionSample\<close> of the tagged hash of the session tag and the coordinates of
  \<open>V\<close>, \<open>R\<close>, \<open>g\<close> and \<open>Alpha\<close>. The group elements are validated points of a group
  primitive that satisfies \<open>curve_closed\<close>.
\<close>

theorem ZKVProof_Verify_accepts_iff:
  assumes closed: "curve_closed env" and V: "ValidateBasic env V" and R: "ValidateBasic env R"
  shows
  "(ZKVProof_Verify env None Session (Some V) (Some R) = Return False)
   \<and> (\<forall>p. vpf_Alpha p = None \<or> vpf_T p = None \<or> vpf_U p = None
            \<or> (\<exists>alpha. vpf_Alpha p = Some alpha \<and> \<not> ValidateBasic env alpha)
          \<longrightarrow> ZKVProof_Verify env (Some p) Session (Some V) (Some R) = Return False)
   \<and> (\<forall>p alpha t u. vpf_Alpha p = Some alpha \<and> ValidateBasic env alpha
                     \<and> vpf_T p = Some t \<and> vpf_U p = Some u
          \<longrightarrow> ZKVProof_Verify env (Some p) Session (Some V) (Some R)
              = Return (\<exists>s s'. Add env (ScalarMult env R t) (ScalarBaseMult env u) = Inr s
                            \<and> Add env alpha
                               (ScalarMult env V
                                  (RejectionSample env (curve_N env)
                                     (SHA512_256i_TAGGED env Session
                                        [coord_X V, coord_Y V, coord_X R, coord_Y R,
                                         curve_Gx env, curve_Gy env,
                                         coord_X alpha, coord_Y alpha]))) = Inr s'
                            \<and> coord_X s = coord_X s' \<and> coord_Y s = coord_Y s'))"
proof -
  have sum: "\<exists>s. Add env (ScalarMult env R t) (ScalarBaseMult env u) = Inr s" for t u
    using closed R unfolding curve_closed_def by blast
  show ?thesis
  proof (intro conjI allI impI)
    show "ZKVProof_Verify env None Session (Some V) (Some R) = Return False"
      by (simp add: ZKVProof_Verify_def)
  next
    fix p :: ZKVProof
    assume "vpf_Alpha p = None \<or> vpf_T p = None \<or> vpf_U p = None
            \<or> (\<exists>alpha. vpf_Alpha p = Some alpha \<and> \<not> ValidateBasic env alpha)"
    then have "\<not> ZKVProof_ValidateBasic env p"
      by (auto simp: ZKVProof_ValidateBasic_def split: option.splits)
    then show "ZKVProof_Verify env (Some p) Session (Some V) (Some R) = Return False"
      by (simp add: ZKVProof_Verify_def)
  next
    fix p :: ZKVProof and alpha t u
    assume p: "vpf_Alpha p = Some alpha \<and> ValidateBasic env alpha
                     \<and> vpf_T p = Some t \<and> vpf_U p = Some u"
    then have vb: "ZKVProof_ValidateBasic env p"
      by (simp add: ZKVProof_ValidateBasic_def)
    obtain s where s: "Add env (ScalarMult env R t) (ScalarBaseMult env u) = Inr s"
      using sum by blast
    show "ZKVProof_Verify env (Some p) Session (Some V) (Some R)
              = Return (\<exists>s s'. Add env (ScalarMult env R t) (ScalarBaseMult env u) = Inr s
                            \<and> Add env alpha
                               (ScalarMult env V
                                  (RejectionSample env (curve_N env)
                                     (SHA512_256i_TAGGED env Session
                                        [coord_X V, coord_Y V, coord_X R, coord_Y R,
                                         curve_Gx env, curve_Gy env,
                                         coord_X alpha, coord_Y alpha]))) = Inr s'
                            \<and> coord_X s = coord_X s' \<and> coord_Y s = coord_Y s')"
      using p vb s
      by (auto simp: ZKVProof_Verify_def challengeV_def NewECPointNoCurveCheck_def Let_def
            split: sum.splits)
  qed
qed

text \<open>
  Witness of C3 on the instance: \<open>R = (3, 0)\<close>, \<open>V = [1]R + [1]g = (4, 0)\<close> and the tag
  \<open>[7]\<close>. The proof \<open>((5, 0), 0, 1)\<close> is accepted, the proof \<open>((5, 0), 0, 2)\<close> and a
  proof whose \<open>Alpha\<close> is not a point are rejected.
\<close>

theorem ZKVProof_Verify_accepts_iff_witness:
  "curve_closed Z7_crypto
   \<and> ValidateBasic Z7_crypto \<lparr>coord_X = 4, coord_Y = 0\<rparr>
   \<and> ValidateBasic Z7_crypto \<lparr>coord_X = 3, coord_Y = 0\<rparr>
   \<and> ZKVProof_Verify Z7_crypto
       (Some \<lparr>vpf_Alpha = Some \<lparr>coord_X = 5, coord_Y = 0\<rparr>, vpf_T = Some 0, vpf_U = Some 1\<rparr>)
       [7] (Some \<lparr>coord_X = 4, coord_Y = 0\<rparr>) (Some \<lparr>coord_X = 3, coord_Y = 0\<rparr>) = Return True
   \<and> ZKVProof_Verify Z7_crypto
       (Some \<lparr>vpf_Alpha = Some \<lparr>coord_X = 5, coord_Y = 0\<rparr>, vpf_T = Some 0, vpf_U = Some 2\<rparr>)
       [7] (Some \<lparr>coord_X = 4, coord_Y = 0\<rparr>) (Some \<lparr>coord_X = 3, coord_Y = 0\<rparr>) = Return False
   \<and> ZKVProof_Verify Z7_crypto
       (Some \<lparr>vpf_Alpha = Some \<lparr>coord_X = 5, coord_Y = 5\<rparr>, vpf_T = Some 0, vpf_U = Some 1\<rparr>)
       [7] (Some \<lparr>coord_X = 4, coord_Y = 0\<rparr>) (Some \<lparr>coord_X = 3, coord_Y = 0\<rparr>) = Return False"
proof -
  have V: "ValidateBasic Z7_crypto \<lparr>coord_X = 4, coord_Y = 0\<rparr>"
    and R: "ValidateBasic Z7_crypto \<lparr>coord_X = 3, coord_Y = 0\<rparr>"
    by (simp_all add: Z7_crypto_def Z7_valid_def)
  note spec = ZKVProof_Verify_accepts_iff [OF Z7_curve_closed V R, of "[7]"]
  have accepted: "ZKVProof_Verify Z7_crypto
       (Some \<lparr>vpf_Alpha = Some \<lparr>coord_X = 5, coord_Y = 0\<rparr>, vpf_T = Some 0, vpf_U = Some 1\<rparr>)
       [7] (Some \<lparr>coord_X = 4, coord_Y = 0\<rparr>) (Some \<lparr>coord_X = 3, coord_Y = 0\<rparr>) = Return True"
    using spec [THEN conjunct2, THEN conjunct2, rule_format,
                of "\<lparr>vpf_Alpha = Some \<lparr>coord_X = 5, coord_Y = 0\<rparr>, vpf_T = Some 0,
                      vpf_U = Some 1\<rparr>" "\<lparr>coord_X = 5, coord_Y = 0\<rparr>" 0 1]
    by (simp add: Z7_crypto_def Z7_valid_def byte_val_def)
  have rejected: "ZKVProof_Verify Z7_crypto
       (Some \<lparr>vpf_Alpha = Some \<lparr>coord_X = 5, coord_Y = 0\<rparr>, vpf_T = Some 0, vpf_U = Some 2\<rparr>)
       [7] (Some \<lparr>coord_X = 4, coord_Y = 0\<rparr>) (Some \<lparr>coord_X = 3, coord_Y = 0\<rparr>) = Return False"
    using spec [THEN conjunct2, THEN conjunct2, rule_format,
                of "\<lparr>vpf_Alpha = Some \<lparr>coord_X = 5, coord_Y = 0\<rparr>, vpf_T = Some 0,
                      vpf_U = Some 2\<rparr>" "\<lparr>coord_X = 5, coord_Y = 0\<rparr>" 0 2]
    by (simp add: Z7_crypto_def Z7_valid_def byte_val_def)
  have invalid: "ZKVProof_Verify Z7_crypto
       (Some \<lparr>vpf_Alpha = Some \<lparr>coord_X = 5, coord_Y = 5\<rparr>, vpf_T = Some 0, vpf_U = Some 1\<rparr>)
       [7] (Some \<lparr>coord_X = 4, coord_Y = 0\<rparr>) (Some \<lparr>coord_X = 3, coord_Y = 0\<rparr>) = Return False"
    using spec [THEN conjunct2, THEN conjunct1, rule_format,
                of "\<lparr>vpf_Alpha = Some \<lparr>coord_X = 5, coord_Y = 5\<rparr>, vpf_T = Some 0,
                      vpf_U = Some 1\<rparr>"]
    by (simp add: Z7_crypto_def Z7_valid_def)
  from Z7_curve_closed V R accepted rejected invalid show ?thesis by blast
qed

section \<open>The guards of the constructors\<close>

text \<open>
  \<^verbatim>\<open>NewZKProof\<close> returns its error exactly when \<open>x\<close> is nil, \<open>X\<close> is nil or \<open>X\<close>
  fails validation, and a proof otherwise (the order of the curve is not zero).
\<close>

lemma NewZKProof_error_iff:
  assumes "curve_N env \<noteq> 0"
  shows "(x = None \<or> X = None \<or> (\<exists>Xp. X = Some Xp \<and> \<not> ValidateBasic env Xp)
           \<longrightarrow> NewZKProof env Session x X rand
               = Return (None, Some ''ZKProof constructor received nil or invalid value(s)''))
       \<and> (\<forall>xv Xp. x = Some xv \<and> X = Some Xp \<and> ValidateBasic env Xp
           \<longrightarrow> (\<exists>pf. NewZKProof env Session x X rand = Return (Some pf, None)))"
  using assms
  by (auto simp: NewZKProof_def ModInt_Add_def Let_def split: option.splits)

text \<open>
  \<^verbatim>\<open>NewZKProofBJJ\<close> with a nil scalar and a point that passes its validation does not
  return: it panics when it multiplies the challenge by the scalar.
\<close>

lemma NewZKProofBJJ_nil_scalar:
  "ValidateBasicBJJ env (Some Xp) \<Longrightarrow>
     NewZKProofBJJ env Session None (Some Xp) rand = Panic NilDereference"
  by (simp add: NewZKProofBJJ_def Let_def)

text \<open>
  Claim C7 says that every constructor of a discrete-log proof returns the
  invalid-witness error, and no proof, exactly when an argument is nil or
  curve-invalid. \<^verbatim>\<open>NewZKProofBJJ\<close> does not test its scalar: on the instance, called
  with a nil scalar and the valid point \<open>(3, 0)\<close>, it returns no error and panics, where
  \<^verbatim>\<open>NewZKProof\<close> returns the error.
\<close>

theorem NewZKProofBJJ_nil_scalar_panics:
  "NewZKProofBJJ Z7_crypto [1, 2] None (Some \<lparr>coord_X = 3, coord_Y = 0\<rparr>) 5
     = Panic NilDereference
   \<and> NewZKProof Z7_crypto [1, 2] None (Some \<lparr>coord_X = 3, coord_Y = 0\<rparr>) 5
     = Return (None, Some ''ZKProof constructor received nil or invalid value(s)'')"
  by (simp add: NewZKProofBJJ_def NewZKProof_def Z7_crypto_def Z7_valid_def)

section \<open>Start: attribution of the failures of a peer\<close>

text \<open>
  The two ways the opening of the commitment of peer \<open>j\<close> fails: the error names no
  culprit.
\<close>

lemma check_peer_decommit_failed:
  assumes "j < length (temp_signRound2Messages round)"
    and "temp_signRound2Messages round ! j = Some msg"
    and "msg_Content msg = SignRound2Content r2msg"
    and "j < length (temp_cjs round)"
    and "DeCommit env (temp_cjs round ! j) (r2_DeCommitment r2msg) = (okD, coordinates)"
    and "\<not> okD \<or> length coordinates \<noteq> 2"
  shows "\<exists>e. check_peer env round j Pj = Failed e \<and> err_culprits e = []"
  using assms by (auto simp: check_peer_def WrapError_def)

text \<open>
  The three later failures name the peer: a reconstruction error with a point that is
  not nil, an unmarshalling error of the proof, and a proof that does not verify.
\<close>

lemma check_peer_Failed_culprits:
  assumes "check_peer env round j Pj = Failed e"
  shows "err_culprits e = [] \<or> err_culprits e = [Pj]"
  using assms
  by (auto simp: check_peer_def WrapError_def Let_def
        split: if_splits option.splits MessageContent.splits prod.splits outcome.splits)

text \<open>
  A reconstruction that returns no point: the correction is called on the nil pointer
  before the error is looked at.
\<close>

lemma check_peer_no_point_panics:
  assumes "j < length (temp_signRound2Messages round)"
    and "temp_signRound2Messages round ! j = Some msg"
    and "msg_Content msg = SignRound2Content r2msg"
    and "j < length (temp_cjs round)"
    and "DeCommit env (temp_cjs round ! j) (r2_DeCommitment r2msg) = (True, [x, y])"
    and "NewECPoint env x y = (None, err)"
  shows "check_peer env round j Pj = Panicked NilDereference"
  using assms by (simp add: check_peer_def EightInvEight_ptr_def)

text \<open>
  Claim C4 says that every error that \<^verbatim>\<open>Start\<close> returns in steps 2 to 4 carries
  the identity of the offending peer. The code does not do so for the two decommitment
  errors: on the instance, peer 1 sent a commitment that its decommitment does not open,
  and \<^verbatim>\<open>Start\<close> returns the decommitment error with an empty list of culprits.
\<close>

theorem Start_decommit_failure_names_no_culprit:
  "snd (Start Z7_round_env Z7_party_bad_commitment)
     = Return (Some \<lparr>err_cause = ''de-commitment verify failed'', err_round = 3,
                     err_victim = \<lparr>pid_Id = ''P'', pid_Index = 0\<rparr>, err_culprits = []\<rparr>)"
  by (simp add: Start_def begin_round_def aggregate_R_def resetOK_def check_peer_def
        WrapError_def Z7_party_bad_commitment_def Z7_defs)

text \<open>
  Claim C5 says that for a peer whose revealed coordinates do not reconstruct to a
  point, \<^verbatim>\<open>Start\<close> returns the point-invalidity error that names the peer, and never
  dereferences an absent point. The code applies the correction before it tests the
  error: on the instance, peer 1 opened its commitment to \<open>(5, 5)\<close>, which is not a
  point, and \<^verbatim>\<open>Start\<close> does not return, it panics on the nil pointer.
\<close>

theorem Start_invalid_point_panics:
  "snd (Start Z7_round_env Z7_party_bad_point) = Panic NilDereference"
  by (simp add: Start_def begin_round_def aggregate_R_def resetOK_def check_peer_def
        WrapError_def EightInvEight_ptr_def Z7_party_bad_point_def Z7_defs)

section \<open>Start: an empty segment of the hash input\<close>

lemma flatten_length_empty:
  "[] \<in> set slices \<Longrightarrow>
     flatten_length slices n = Panic (PanicMsg ''empty slice detected in Poseidon inputs'')"
  by (induction slices arbitrary: n) auto

lemma flattenByteSlices_empty:
  "[] \<in> set slices \<Longrightarrow>
     flattenByteSlices slices = Panic (PanicMsg ''empty slice detected in Poseidon inputs'')"
  by (simp add: flattenByteSlices_def flatten_length_empty)

lemma flatten_length_nonempty:
  "[] \<notin> set slices \<Longrightarrow> flatten_length slices n = Return (n + length (concat slices))"
  by (induction slices arbitrary: n) auto

lemma flatten_copy_concat:
  "offset + length (concat slices) \<le> length flattened \<Longrightarrow>
     flatten_copy slices flattened offset
       = take offset flattened @ concat slices
           @ drop (offset + length (concat slices)) flattened"
proof (induction slices arbitrary: flattened offset)
  case Nil
  then show ?case by simp
next
  case (Cons sl slices)
  define buf where
    "buf = take offset flattened @ copy_bytes (drop offset flattened) sl"
  have fit: "length sl \<le> length flattened - offset" using Cons.prems by simp
  have buf: "buf = take offset flattened @ sl @ drop (offset + length sl) flattened"
    using fit by (simp add: buf_def copy_bytes_def add.commute)
  have len: "length buf = length flattened" using Cons.prems by (simp add: buf)
  have "offset + length sl + length (concat slices) \<le> length buf"
    using Cons.prems len by simp
  from Cons.IH [OF this]
  have "flatten_copy slices buf (offset + length sl)
          = take (offset + length sl) buf @ concat slices
              @ drop (offset + length sl + length (concat slices)) buf" .
  moreover have "take (offset + length sl) buf = take offset flattened @ sl"
    using Cons.prems by (simp add: buf)
  moreover have "drop (offset + length sl + length (concat slices)) buf
                   = drop (offset + length sl + length (concat slices)) flattened"
    using Cons.prems by (simp add: buf add.commute add.left_commute)
  ultimately show ?case
    by (simp add: buf_def add.assoc)
qed

text \<open>Without an empty slice, \<^verbatim>\<open>flattenByteSlices\<close> is the concatenation.\<close>

lemma flattenByteSlices_concat:
  "[] \<notin> set slices \<Longrightarrow> flattenByteSlices slices = Return (concat slices)"
  by (simp add: flattenByteSlices_def flatten_length_nonempty flatten_copy_concat)

text \<open>
  The message segment is empty when the message is zero and has no declared length.
\<close>

lemma poseidonInputs_zero_message:
  assumes "temp_fullBytesLen round = 0" and "temp_m round = 0"
  shows "poseidonInputs env round encodedR
           = Return [encodedR,
                     ecPointToEncodedBytes env (coord_X (key_EDDSAPub round))
                       (coord_Y (key_EDDSAPub round)),
                     []]"
  using assms by (simp add: poseidonInputs_def big_Bytes_def nat_Bytes.simps)

text \<open>The checks, the loop and the hash input do not call the hash function.\<close>

lemma check_peer_HashBytes:
  "check_peer (env\<lparr>HashBytes := h\<rparr>) round j Pj = check_peer env round j Pj"
  by (simp add: check_peer_def EightInvEight_ptr_def
        cong: option.case_cong MessageContent.case_cong prod.case_cong outcome.case_cong if_cong)

lemma peers_loop_HashBytes:
  "peers_loop (env\<lparr>HashBytes := h\<rparr>) round j Ps R rnd = peers_loop env round j Ps R rnd"
  by (induction Ps arbitrary: j R rnd)
     (auto simp: check_peer_HashBytes split: loop_exit.splits prod.splits)

lemma aggregate_R_HashBytes:
  "aggregate_R (env\<lparr>HashBytes := h\<rparr>) round = aggregate_R env round"
  by (simp add: aggregate_R_def peers_loop_HashBytes)

lemma poseidonInputs_HashBytes:
  "poseidonInputs (env\<lparr>HashBytes := h\<rparr>) round encodedR = poseidonInputs env round encodedR"
  by (simp add: poseidonInputs_def)

text \<open>
  Claim C6, as the code has it. Whenever \<^verbatim>\<open>Start\<close> reaches the hash input and one of
  its segments has zero length, \<^verbatim>\<open>Start\<close> panics with the message of
  \<^verbatim>\<open>flattenByteSlices\<close>: it returns no error, and it does not hash (the outcome is the
  same whatever the hash function \<open>h\<close>).
\<close>

theorem Start_empty_segment_panics:
  assumes fresh: "\<not> started round0"
    and loop: "aggregate_R env (begin_round round0) = (Completed R, rnd)"
    and inputs: "poseidonInputs env ((begin_round round0)\<lparr>Rand := rnd\<rparr>) (ToBytes env R)
                   = Return segments"
    and empty: "[] \<in> set segments"
  shows "snd (Start env round0) = Panic (PanicMsg ''empty slice detected in Poseidon inputs'')
       \<and> snd (Start (env\<lparr>HashBytes := h\<rparr>) round0)
           = Panic (PanicMsg ''empty slice detected in Poseidon inputs'')"
  using fresh loop inputs flattenByteSlices_empty [OF empty]
  by (simp add: Start_def Let_def reduced_lambda_def aggregate_R_HashBytes
        poseidonInputs_HashBytes)

text \<open>
  The run of the instance with the message zero: the loop ends with the extended
  element \<open>(12, 10100)\<close> and the hash input has an empty third segment.
\<close>

lemma Z7_loop:
  "aggregate_R Z7_round_env (begin_round ((Z7_party 0 2 rnd)\<lparr>temp_m := m\<rparr>))
     = (Completed (12, rnd * (rnd + 1)), rnd + 2)"
  by (simp add: aggregate_R_def begin_round_def resetOK_def check_peer_def
        EightInvEight_ptr_def ZKProof_Verify_def ZKProof_ValidateBasic_def challenge_def
        NewECPointNoCurveCheck_def Z7_defs)

lemma Z7_zero_message_inputs:
  "poseidonInputs Z7_round_env ((begin_round Z7_party_zero_message)\<lparr>Rand := 102\<rparr>)
     (ToBytes Z7_round_env (12, 10100)) = Return [[5], [3, 0], []]"
  by (simp add: poseidonInputs_def begin_round_def resetOK_def big_Bytes_def nat_Bytes.simps
        Z7_party_zero_message_def Z7_defs)

text \<open>Witness of the amended C6 on the instance, with a hash function that fails.\<close>

theorem Start_empty_segment_panics_witness:
  "\<not> started Z7_party_zero_message
   \<and> aggregate_R Z7_round_env (begin_round Z7_party_zero_message)
       = (Completed (12, 10100), 102)
   \<and> [] \<in> set [[5], [3, 0], ([] :: byte list)]
   \<and> snd (Start Z7_round_env Z7_party_zero_message)
       = Panic (PanicMsg ''empty slice detected in Poseidon inputs'')
   \<and> snd (Start (Z7_round_env\<lparr>HashBytes := (\<lambda>bs. Inl ''no hash'')\<rparr>) Z7_party_zero_message)
       = Panic (PanicMsg ''empty slice detected in Poseidon inputs'')"
proof -
  have fresh: "\<not> started Z7_party_zero_message"
    by (simp add: Z7_party_zero_message_def Z7_party_def)
  have loop: "aggregate_R Z7_round_env (begin_round Z7_party_zero_message)
                = (Completed (12, 10100), 102)"
    using Z7_loop [where rnd = 100 and m = 0] by (simp add: Z7_party_zero_message_def)
  have empty: "[] \<in> set [[5], [3, 0], ([] :: byte list)]" by simp
  from Start_empty_segment_panics [OF fresh loop Z7_zero_message_inputs empty,
         of "\<lambda>bs. Inl ''no hash''"] fresh loop empty
  show ?thesis by blast
qed

text \<open>
  Counterexample to C6 as stated: on the instance with the message zero, the third
  segment of the hash input is empty, and \<^verbatim>\<open>Start\<close> does not return an error: it
  panics.
\<close>

theorem Start_empty_segment_counterexample:
  "poseidonInputs Z7_round_env ((begin_round Z7_party_zero_message)\<lparr>Rand := 102\<rparr>)
     (ToBytes Z7_round_env (12, 10100)) = Return [[5], [3, 0], []]
   \<and> snd (Start Z7_round_env Z7_party_zero_message)
       = Panic (PanicMsg ''empty slice detected in Poseidon inputs'')"
proof -
  have "snd (Start Z7_round_env Z7_party_zero_message)
          = Panic (PanicMsg ''empty slice detected in Poseidon inputs'')"
    using Z7_loop [where rnd = 100 and m = 0] Z7_zero_message_inputs
    by (simp add: Start_def Let_def reduced_lambda_def flattenByteSlices_def
          Z7_party_zero_message_def Z7_party_def)
  with Z7_zero_message_inputs show ?thesis by simp
qed

section \<open>Start: agreement of the parties on R and lambda\<close>

text \<open>
  The loop under an abstraction \<open>\<alpha>\<close> of the extended elements into a commutative
  monoid: when every peer passes its checks with the point \<open>P k\<close>, the loop completes
  and has added the points of all the parties but \<open>i\<close>.
\<close>

lemma peers_loop_sum:
  fixes \<alpha> :: "'e \<Rightarrow> 'g::comm_monoid_add"
  assumes hom: "\<forall>a b. \<alpha> (addExtendedElements env a b) = \<alpha> a + \<alpha> b"
    and repr: "\<forall>x y rnd. \<alpha> (fst (ecPointToExtendedElement env x y rnd)) = pt x y"
    and idx: "pid_Index (PartyID round) = int i"
    and peers: "\<forall>k<length Ps. j + k \<noteq> i
                  \<longrightarrow> check_peer env round (j + k) (Ps ! k) = Completed (P (j + k))"
  shows "\<exists>R' rnd'. peers_loop env round j Ps R rnd = (Completed R', rnd')
           \<and> \<alpha> R' = \<alpha> R + (\<Sum>k\<in>{j..<j + length Ps} - {i}. pt (coord_X (P k)) (coord_Y (P k)))"
  using peers
proof (induction Ps arbitrary: j R rnd)
  case Nil
  then show ?case by simp
next
  case (Cons Pj Ps)
  have rest: "\<forall>k<length Ps. Suc j + k \<noteq> i
                \<longrightarrow> check_peer env round (Suc j + k) (Ps ! k) = Completed (P (Suc j + k))"
  proof (intro allI impI)
    fix k assume "k < length Ps" and "Suc j + k \<noteq> i"
    with Cons.prems [rule_format, of "Suc k"]
    show "check_peer env round (Suc j + k) (Ps ! k) = Completed (P (Suc j + k))" by simp
  qed
  show ?case
  proof (cases "j = i")
    case True
    have set_eq: "{j..<j + length (Pj # Ps)} - {i} = {Suc j..<Suc j + length Ps} - {i}"
      using True by auto
    from Cons.IH [OF rest, of R rnd] show ?thesis
      using True idx unfolding set_eq by simp
  next
    case False
    have chk: "check_peer env round j Pj = Completed (P j)"
      using Cons.prems [rule_format, of 0] False by simp
    obtain ext rnd1 where ext:
      "ecPointToExtendedElement env (coord_X (P j)) (coord_Y (P j)) rnd = (ext, rnd1)"
      by (cases "ecPointToExtendedElement env (coord_X (P j)) (coord_Y (P j)) rnd")
    have ext_val: "\<alpha> ext = pt (coord_X (P j)) (coord_Y (P j))"
      using repr [rule_format, of "coord_X (P j)" "coord_Y (P j)" rnd] ext by simp
    from Cons.IH [OF rest, of "addExtendedElements env R ext" rnd1]
    obtain R' rnd' where
      run: "peers_loop env round (Suc j) Ps (addExtendedElements env R ext) rnd1
              = (Completed R', rnd')"
      and val: "\<alpha> R' = \<alpha> (addExtendedElements env R ext)
                  + (\<Sum>k\<in>{Suc j..<Suc j + length Ps} - {i}. pt (coord_X (P k)) (coord_Y (P k)))"
      by blast
    have step: "peers_loop env round j (Pj # Ps) R rnd = (Completed R', rnd')"
      using False idx chk ext run by simp
    have set_eq: "{j..<j + length (Pj # Ps)} - {i}
                    = insert j ({Suc j..<Suc j + length Ps} - {i})"
      using False by auto
    have "\<alpha> R' = \<alpha> R + (\<Sum>k\<in>{j..<j + length (Pj # Ps)} - {i}.
                             pt (coord_X (P k)) (coord_Y (P k)))"
      unfolding set_eq val using hom ext_val
      by (simp add: add.assoc)
    with step show ?thesis by blast
  qed
qed

text \<open>
  With the own nonce point first, the aggregated \<open>R\<close> stands for the sum of the points
  of all the parties, whatever the own index and whatever the randomness drawn.
\<close>

lemma aggregate_R_total:
  fixes \<alpha> :: "'e \<Rightarrow> 'g::comm_monoid_add"
  assumes hom: "\<forall>a b. \<alpha> (addExtendedElements env a b) = \<alpha> a + \<alpha> b"
    and repr: "\<forall>x y rnd. \<alpha> (fst (ecPointToExtendedElement env x y rnd)) = pt x y"
    and idx: "pid_Index (PartyID round) = int i" and i: "i < length (Parties_IDs round)"
    and peers: "\<forall>j<length (Parties_IDs round). j \<noteq> i
                  \<longrightarrow> check_peer env (begin_round round) j (Parties_IDs round ! j)
                      = Completed (P j)"
    and own: "\<alpha> (GeScalarMultBase env (bigIntToEncodedBytes env (temp_ri round)))
                = pt (coord_X (P i)) (coord_Y (P i))"
  shows "\<exists>R rnd. aggregate_R env (begin_round round) = (Completed R, rnd)
           \<and> \<alpha> R = (\<Sum>k<length (Parties_IDs round). pt (coord_X (P k)) (coord_Y (P k)))"
proof -
  let ?r = "begin_round round"
  let ?n = "length (Parties_IDs round)"
  have idx': "pid_Index (PartyID ?r) = int i"
    using idx by (simp add: begin_round_def resetOK_def)
  have ids: "Parties_IDs ?r = Parties_IDs round" and ri: "temp_ri ?r = temp_ri round"
    by (simp_all add: begin_round_def resetOK_def)
  have peers': "\<forall>k<length (Parties_IDs ?r). 0 + k \<noteq> i
                  \<longrightarrow> check_peer env ?r (0 + k) (Parties_IDs ?r ! k) = Completed (P (0 + k))"
    using peers by (simp add: ids)
  from peers_loop_sum [of \<alpha> env pt ?r i "Parties_IDs ?r" 0 P, OF hom repr idx' peers']
  obtain R rnd where
    run: "peers_loop env ?r 0 (Parties_IDs ?r)
            (GeScalarMultBase env (bigIntToEncodedBytes env (temp_ri ?r))) (Rand ?r)
              = (Completed R, rnd)"
    and val: "\<alpha> R = \<alpha> (GeScalarMultBase env (bigIntToEncodedBytes env (temp_ri ?r)))
                + (\<Sum>k\<in>{0..<0 + length (Parties_IDs ?r)} - {i}.
                      pt (coord_X (P k)) (coord_Y (P k)))"
    by blast
  have "(\<Sum>k<?n. pt (coord_X (P k)) (coord_Y (P k)))
          = pt (coord_X (P i)) (coord_Y (P i))
            + (\<Sum>k\<in>{..<?n} - {i}. pt (coord_X (P k)) (coord_Y (P k)))"
    using i by (intro sum.remove) simp_all
  then have "\<alpha> R = (\<Sum>k<?n. pt (coord_X (P k)) (coord_Y (P k)))"
    using val own by (simp add: ids ri atLeast0LessThan)
  with run show ?thesis
    by (auto simp: aggregate_R_def Let_def)
qed

text \<open>The hash input and lambda depend on the round object through three fields only.\<close>

lemma poseidonInputs_cong:
  assumes "key_EDDSAPub roundA = key_EDDSAPub roundB"
    and "temp_m roundA = temp_m roundB"
    and "temp_fullBytesLen roundA = temp_fullBytesLen roundB"
  shows "poseidonInputs env roundA encodedR = poseidonInputs env roundB encodedR"
  unfolding poseidonInputs_def assms ..

lemma reduced_lambda_cong:
  assumes "key_EDDSAPub roundA = key_EDDSAPub roundB"
    and "temp_m roundA = temp_m roundB"
    and "temp_fullBytesLen roundA = temp_fullBytesLen roundB"
  shows "reduced_lambda env roundA encodedR = reduced_lambda env roundB encodedR"
  unfolding reduced_lambda_def poseidonInputs_cong [OF assms] ..

text \<open>A \<^verbatim>\<open>Start\<close> that returns nil has recorded the encoded \<open>R\<close> it aggregated.\<close>

lemma Start_success_temp_r:
  assumes "\<not> started round" and "aggregate_R env (begin_round round) = (Completed R, rnd)"
    and "snd (Start env round) = Return None"
  shows "temp_r (fst (Start env round)) = Some (encodedBytesToBigInt env (ToBytes env R))"
  using assms
  by (auto simp: Start_def Let_def split: outcome.splits sum.splits if_splits)

text \<open>What a \<^verbatim>\<open>Start\<close> that passes every stage returns and records.\<close>

lemma Start_success:
  assumes "\<not> started round"
    and "aggregate_R env (begin_round round) = (Completed R, rnd)"
    and "reduced_lambda env ((begin_round round)\<lparr>Rand := rnd\<rparr>) (ToBytes env R)
           = Return (Inr lambdaReduced)"
    and "0 \<le> pid_Index (PartyID round)"
    and "nat (pid_Index (PartyID round)) < length (temp_signRound3Messages round)"
  shows "snd (Start env round) = Return None"
    and "temp_r (fst (Start env round)) = Some (encodedBytesToBigInt env (ToBytes env R))"
    and "temp_si (fst (Start env round))
           = Some (ScMulAdd env lambdaReduced (bigIntToEncodedBytes env (temp_wi round))
                     (bigIntToEncodedBytes env (temp_ri round)))"
  using assms by (simp_all add: Start_def Let_def begin_round_def resetOK_def)

text \<open>
  Claim C8. Two honest parties \<open>A\<close> and \<open>B\<close> that run \<^verbatim>\<open>Start\<close> for the same session,
  with the same nonce points \<open>P j\<close> of the parties, the same public key and the same
  message, compute the same encoded \<open>R\<close> and the same reduced lambda, whatever
  randomness each draws for the extended elements. The extended-element arithmetic is a
  parameter: it is assumed to represent a commutative group faithfully, by an
  abstraction \<open>\<alpha>\<close> that the sum respects, that sends the extended element built from
  the coordinates \<open>(x, y)\<close> to the same value \<open>pt x y\<close> whatever randomness is drawn,
  and that determines the encoding. A party is honest when its own nonce point is the
  point the others hold for it.
\<close>

theorem Start_R_lambda_agree:
  fixes \<alpha> :: "'e \<Rightarrow> 'g::comm_monoid_add"
  assumes hom: "\<forall>a b. \<alpha> (addExtendedElements env a b) = \<alpha> a + \<alpha> b"
    and repr: "\<forall>x y rnd. \<alpha> (fst (ecPointToExtendedElement env x y rnd)) = pt x y"
    and canon: "\<forall>a b. \<alpha> a = \<alpha> b \<longrightarrow> ToBytes env a = ToBytes env b"
    and freshA: "\<not> started roundA" and freshB: "\<not> started roundB"
    and parties: "Parties_IDs roundA = Parties_IDs roundB"
    and pubkey: "key_EDDSAPub roundA = key_EDDSAPub roundB"
    and message: "temp_m roundA = temp_m roundB"
                 "temp_fullBytesLen roundA = temp_fullBytesLen roundB"
    and idxA: "pid_Index (PartyID roundA) = int iA" "iA < length (Parties_IDs roundA)"
    and idxB: "pid_Index (PartyID roundB) = int iB" "iB < length (Parties_IDs roundB)"
    and peersA: "\<forall>j<length (Parties_IDs roundA). j \<noteq> iA
                  \<longrightarrow> check_peer env (begin_round roundA) j (Parties_IDs roundA ! j)
                      = Completed (P j)"
    and peersB: "\<forall>j<length (Parties_IDs roundB). j \<noteq> iB
                  \<longrightarrow> check_peer env (begin_round roundB) j (Parties_IDs roundB ! j)
                      = Completed (P j)"
    and ownA: "\<alpha> (GeScalarMultBase env (bigIntToEncodedBytes env (temp_ri roundA)))
                = pt (coord_X (P iA)) (coord_Y (P iA))"
    and ownB: "\<alpha> (GeScalarMultBase env (bigIntToEncodedBytes env (temp_ri roundB)))
                = pt (coord_X (P iB)) (coord_Y (P iB))"
  shows "\<exists>RA rndA RB rndB.
           aggregate_R env (begin_round roundA) = (Completed RA, rndA)
         \<and> aggregate_R env (begin_round roundB) = (Completed RB, rndB)
         \<and> ToBytes env RA = ToBytes env RB
         \<and> reduced_lambda env ((begin_round roundA)\<lparr>Rand := rndA\<rparr>) (ToBytes env RA)
             = reduced_lambda env ((begin_round roundB)\<lparr>Rand := rndB\<rparr>) (ToBytes env RB)
         \<and> (snd (Start env roundA) = Return None \<and> snd (Start env roundB) = Return None
              \<longrightarrow> temp_r (fst (Start env roundA)) = temp_r (fst (Start env roundB)))"
proof -
  from aggregate_R_total [of \<alpha> env pt roundA iA P, OF hom repr idxA peersA ownA]
  obtain RA rndA where
    runA: "aggregate_R env (begin_round roundA) = (Completed RA, rndA)"
    and valA: "\<alpha> RA = (\<Sum>k<length (Parties_IDs roundA). pt (coord_X (P k)) (coord_Y (P k)))"
    by blast
  from aggregate_R_total [of \<alpha> env pt roundB iB P, OF hom repr idxB peersB ownB]
  obtain RB rndB where
    runB: "aggregate_R env (begin_round roundB) = (Completed RB, rndB)"
    and valB: "\<alpha> RB = (\<Sum>k<length (Parties_IDs roundB). pt (coord_X (P k)) (coord_Y (P k)))"
    by blast
  have "\<alpha> RA = \<alpha> RB" using valA valB parties by simp
  then have enc: "ToBytes env RA = ToBytes env RB" using canon by blast
  have lam: "reduced_lambda env ((begin_round roundA)\<lparr>Rand := rndA\<rparr>) (ToBytes env RA)
             = reduced_lambda env ((begin_round roundB)\<lparr>Rand := rndB\<rparr>) (ToBytes env RB)"
    unfolding enc
    by (rule reduced_lambda_cong) (simp_all add: begin_round_def resetOK_def pubkey message)
  have r: "snd (Start env roundA) = Return None \<and> snd (Start env roundB) = Return None
              \<longrightarrow> temp_r (fst (Start env roundA)) = temp_r (fst (Start env roundB))"
    using Start_success_temp_r [OF freshA runA] Start_success_temp_r [OF freshB runB] enc
    by simp
  from runA runB enc lam r show ?thesis by blast
qed

text \<open>
  The instance: party 0 with nonce 2 and randomness source 100, party 1 with nonce 4
  and randomness source 200. Each accepts the two other parties with their points.
\<close>

lemma all_less_3: "(\<forall>j<3. Q j) \<longleftrightarrow> Q 0 \<and> Q (Suc 0) \<and> Q 2" for Q :: "nat \<Rightarrow> bool"
proof -
  have "j < 3 \<longleftrightarrow> j = 0 \<or> j = Suc 0 \<or> j = 2" for j :: nat by auto
  then show ?thesis by auto
qed

lemma Z7_check_peers:
  "check_peer Z7_round_env (begin_round (Z7_party i ri rnd)) 0 \<lparr>pid_Id = ''P'', pid_Index = 0\<rparr>
     = Completed \<lparr>coord_X = 2, coord_Y = 0\<rparr>"
  "check_peer Z7_round_env (begin_round (Z7_party i ri rnd)) (Suc 0)
     \<lparr>pid_Id = ''P'', pid_Index = 1\<rparr> = Completed \<lparr>coord_X = 4, coord_Y = 0\<rparr>"
  "check_peer Z7_round_env (begin_round (Z7_party i ri rnd)) 2 \<lparr>pid_Id = ''P'', pid_Index = 2\<rparr>
     = Completed \<lparr>coord_X = 6, coord_Y = 0\<rparr>"
  by (simp_all add: begin_round_def resetOK_def check_peer_def
        EightInvEight_ptr_def ZKProof_Verify_def ZKProof_ValidateBasic_def challenge_def
        NewECPointNoCurveCheck_def Z7_defs)

text \<open>
  Witness of C8 on the instance: both parties complete \<^verbatim>\<open>Start\<close>, with different
  extended elements \<open>R\<close>, and record the same encoded \<open>R\<close>.
\<close>

theorem Start_R_lambda_agree_witness:
  "aggregate_R Z7_round_env (begin_round (Z7_party 0 2 100)) = (Completed (12, 10100), 102)
   \<and> aggregate_R Z7_round_env (begin_round (Z7_party 1 4 200)) = (Completed (12, 40200), 202)
   \<and> snd (Start Z7_round_env (Z7_party 0 2 100)) = Return None
   \<and> snd (Start Z7_round_env (Z7_party 1 4 200)) = Return None
   \<and> temp_r (fst (Start Z7_round_env (Z7_party 0 2 100))) = Some 5
   \<and> temp_r (fst (Start Z7_round_env (Z7_party 1 4 200))) = Some 5
   \<and> (\<exists>RA rndA RB rndB.
           aggregate_R Z7_round_env (begin_round (Z7_party 0 2 100)) = (Completed RA, rndA)
         \<and> aggregate_R Z7_round_env (begin_round (Z7_party 1 4 200)) = (Completed RB, rndB)
         \<and> ToBytes Z7_round_env RA = ToBytes Z7_round_env RB
         \<and> reduced_lambda Z7_round_env ((begin_round (Z7_party 0 2 100))\<lparr>Rand := rndA\<rparr>)
               (ToBytes Z7_round_env RA)
             = reduced_lambda Z7_round_env ((begin_round (Z7_party 1 4 200))\<lparr>Rand := rndB\<rparr>)
                 (ToBytes Z7_round_env RB))"
proof -
  define P where "P = (\<lambda>j::nat. \<lparr>coord_X = 2 * int j + 2, coord_Y = 0\<rparr>)"
  have P: "P 0 = \<lparr>coord_X = 2, coord_Y = 0\<rparr>" "P (Suc 0) = \<lparr>coord_X = 4, coord_Y = 0\<rparr>"
    "P 2 = \<lparr>coord_X = 6, coord_Y = 0\<rparr>"
    by (simp_all add: P_def)
  have hom: "\<forall>a b. fst (addExtendedElements Z7_round_env a b) = fst a + fst b"
    by (simp add: Z7_round_env_def)
  have repr: "\<forall>x y rnd. fst (fst (ecPointToExtendedElement Z7_round_env x y rnd)) = x mod 7"
    by (simp add: Z7_round_env_def)
  have canon: "\<forall>a b. fst a = fst b \<longrightarrow> ToBytes Z7_round_env a = ToBytes Z7_round_env b"
    by (simp add: Z7_round_env_def)
  have fresh: "\<not> started (Z7_party 0 2 100)" "\<not> started (Z7_party 1 4 200)"
    by (simp_all add: Z7_party_def)
  have same: "Parties_IDs (Z7_party 0 2 100) = Parties_IDs (Z7_party 1 4 200)"
    "key_EDDSAPub (Z7_party 0 2 100) = key_EDDSAPub (Z7_party 1 4 200)"
    "temp_m (Z7_party 0 2 100) = temp_m (Z7_party 1 4 200)"
    "temp_fullBytesLen (Z7_party 0 2 100) = temp_fullBytesLen (Z7_party 1 4 200)"
    by (simp_all add: Z7_party_def)
  have idxA: "pid_Index (PartyID (Z7_party 0 2 100)) = int 0"
    "0 < length (Parties_IDs (Z7_party 0 2 100))"
    and idxB: "pid_Index (PartyID (Z7_party 1 4 200)) = int (Suc 0)"
    "Suc 0 < length (Parties_IDs (Z7_party 1 4 200))"
    by (simp_all add: Z7_party_def)
  have len: "length (Parties_IDs (Z7_party i ri rnd)) = 3" for i ri rnd
    by (simp add: Z7_party_def)
  have ids: "Parties_IDs (Z7_party i ri rnd) ! 0 = \<lparr>pid_Id = ''P'', pid_Index = 0\<rparr>"
    "Parties_IDs (Z7_party i ri rnd) ! Suc 0 = \<lparr>pid_Id = ''P'', pid_Index = 1\<rparr>"
    "Parties_IDs (Z7_party i ri rnd) ! 2 = \<lparr>pid_Id = ''P'', pid_Index = 2\<rparr>" for i ri rnd
    by (simp_all add: Z7_party_def)
  have peersA: "\<forall>j<length (Parties_IDs (Z7_party 0 2 100)). j \<noteq> 0
      \<longrightarrow> check_peer Z7_round_env (begin_round (Z7_party 0 2 100)) j
            (Parties_IDs (Z7_party 0 2 100) ! j) = Completed (P j)"
    unfolding len all_less_3 by (simp add: ids P Z7_check_peers)
  have peersB: "\<forall>j<length (Parties_IDs (Z7_party 1 4 200)). j \<noteq> Suc 0
      \<longrightarrow> check_peer Z7_round_env (begin_round (Z7_party 1 4 200)) j
            (Parties_IDs (Z7_party 1 4 200) ! j) = Completed (P j)"
    unfolding len all_less_3 by (simp add: ids P Z7_check_peers)
  have ownA: "fst (GeScalarMultBase Z7_round_env
                (bigIntToEncodedBytes Z7_round_env (temp_ri (Z7_party 0 2 100))))
                = coord_X (P 0) mod 7"
    and ownB: "fst (GeScalarMultBase Z7_round_env
                (bigIntToEncodedBytes Z7_round_env (temp_ri (Z7_party 1 4 200))))
                = coord_X (P (Suc 0)) mod 7"
    by (simp_all add: P Z7_defs)
  note agree = Start_R_lambda_agree [of fst Z7_round_env "\<lambda>x y. x mod 7"
      "Z7_party 0 2 100" "Z7_party 1 4 200" 0 "Suc 0" P,
      OF hom repr canon fresh same idxA idxB peersA peersB ownA ownB]
  have loopA: "aggregate_R Z7_round_env (begin_round (Z7_party 0 2 100))
                 = (Completed (12, 10100), 102)"
    and loopB: "aggregate_R Z7_round_env (begin_round (Z7_party 1 4 200))
                 = (Completed (12, 40200), 202)"
    by (simp_all add: aggregate_R_def begin_round_def resetOK_def check_peer_def
          EightInvEight_ptr_def ZKProof_Verify_def ZKProof_ValidateBasic_def challenge_def
          NewECPointNoCurveCheck_def Z7_defs)
  have inputs: "poseidonInputs Z7_round_env ((begin_round (Z7_party i ri rnd))\<lparr>Rand := rnd'\<rparr>) [5]
                  = Return [[5], [3, 0], [5]]" for i ri rnd rnd'
    by (simp add: poseidonInputs_def begin_round_def resetOK_def big_Bytes_def nat_Bytes.simps
          Z7_defs)
  have lam: "reduced_lambda Z7_round_env ((begin_round (Z7_party i ri rnd))\<lparr>Rand := rnd'\<rparr>) [5]
               = Return (Inr [6])" for i ri rnd rnd'
    unfolding reduced_lambda_def inputs
    by (simp add: flattenByteSlices_def copy_bytes_def big_Bytes_def nat_Bytes.simps
          Z7_round_env_def byte_val_def sum_list_replicate)
  have enc: "ToBytes Z7_round_env (12, z) = [5]" for z
    by (simp add: Z7_round_env_def)
  have lamA: "reduced_lambda Z7_round_env ((begin_round (Z7_party 0 2 100))\<lparr>Rand := 102\<rparr>)
               (ToBytes Z7_round_env (12, 10100)) = Return (Inr [6])"
    and lamB: "reduced_lambda Z7_round_env ((begin_round (Z7_party 1 4 200))\<lparr>Rand := 202\<rparr>)
               (ToBytes Z7_round_env (12, 40200)) = Return (Inr [6])"
    unfolding enc by (rule lam)+
  have slotA: "0 \<le> pid_Index (PartyID (Z7_party 0 2 100))"
    "nat (pid_Index (PartyID (Z7_party 0 2 100)))
       < length (temp_signRound3Messages (Z7_party 0 2 100))"
    and slotB: "0 \<le> pid_Index (PartyID (Z7_party 1 4 200))"
    "nat (pid_Index (PartyID (Z7_party 1 4 200)))
       < length (temp_signRound3Messages (Z7_party 1 4 200))"
    by (simp_all add: Z7_party_def)
  have five: "encodedBytesToBigInt Z7_round_env [5] = 5"
    by (simp add: Z7_round_env_def byte_val_def)
  have startA: "snd (Start Z7_round_env (Z7_party 0 2 100)) = Return None
                \<and> temp_r (fst (Start Z7_round_env (Z7_party 0 2 100))) = Some 5"
    using Start_success(1,2) [OF fresh(1) loopA lamA slotA] by (simp add: enc five)
  have startB: "snd (Start Z7_round_env (Z7_party 1 4 200)) = Return None
                \<and> temp_r (fst (Start Z7_round_env (Z7_party 1 4 200))) = Some 5"
    using Start_success(1,2) [OF fresh(2) loopB lamB slotB] by (simp add: enc five)
  from agree loopA loopB startA startB show ?thesis by blast
qed

section \<open>Update\<close>

text \<open>
  The loop of \<^verbatim>\<open>Update\<close> from index \<open>j\<close> on, when the table has a slot for every
  message left: it returns, the flag is the conjunction over the slots it visited, and a
  slot of the table is set exactly when it was set before or its message is acceptable.
\<close>

lemma Update_loop_result:
  assumes "j + length msgs \<le> length oks"
  shows "\<exists>oks'. Update_loop j msgs oks ret
                  = (oks', Return (ret \<and> (\<forall>k<length msgs. oks ! (j + k) \<or> acceptable (msgs ! k))))
               \<and> length oks' = length oks
               \<and> (\<forall>k<length oks. oks' ! k
                     = (oks ! k \<or> (j \<le> k \<and> k < j + length msgs \<and> acceptable (msgs ! (k - j)))))"
  using assms
proof (induction msgs arbitrary: j oks ret)
  case Nil
  then show ?case by auto
next
  case (Cons msg msgs)
  have j: "j < length oks" and rest: "Suc j + length msgs \<le> length oks"
    using Cons.prems by simp_all
  have all_Suc: "(\<forall>k<Suc (length msgs). P k) \<longleftrightarrow> P 0 \<and> (\<forall>k<length msgs. P (Suc k))" for P
    by (metis less_Suc_eq_0_disj)
  show ?case
  proof (cases "oks ! j \<or> \<not> acceptable msg")
    case True
    define ret' where "ret' = (ret \<and> (oks ! j \<or> acceptable msg))"
    from Cons.IH [OF rest, of ret'] obtain oks' where
      run: "Update_loop (Suc j) msgs oks ret'
              = (oks', Return (ret' \<and> (\<forall>k<length msgs. oks ! (Suc j + k) \<or> acceptable (msgs ! k))))"
      and len: "length oks' = length oks"
      and tab: "\<forall>k<length oks. oks' ! k
                  = (oks ! k \<or> (Suc j \<le> k \<and> k < Suc j + length msgs
                                 \<and> acceptable (msgs ! (k - Suc j))))"
      by blast
    have step: "Update_loop j (msg # msgs) oks ret = Update_loop (Suc j) msgs oks ret'"
      using True j by (auto simp: ret'_def acceptable_def split: option.splits)
    have "\<forall>k<length oks. oks' ! k
            = (oks ! k \<or> (j \<le> k \<and> k < j + length (msg # msgs)
                           \<and> acceptable ((msg # msgs) ! (k - j))))"
    proof (intro allI impI)
      fix k assume k: "k < length oks"
      show "oks' ! k = (oks ! k \<or> (j \<le> k \<and> k < j + length (msg # msgs)
                           \<and> acceptable ((msg # msgs) ! (k - j))))"
      proof (cases "k = j")
        case True
        with tab k \<open>oks ! j \<or> \<not> acceptable msg\<close> show ?thesis by auto
      next
        case False
        with tab k show ?thesis
          by (cases "j \<le> k") (auto simp: nth_Cons' Suc_diff_Suc)
      qed
    qed
    moreover have "(ret' \<and> (\<forall>k<length msgs. oks ! (Suc j + k) \<or> acceptable (msgs ! k)))
          = (ret \<and> (\<forall>k<length (msg # msgs). oks ! (j + k) \<or> acceptable ((msg # msgs) ! k)))"
      unfolding ret'_def using all_Suc [of "\<lambda>k. oks ! (j + k) \<or> acceptable ((msg # msgs) ! k)"]
      by simp
    ultimately show ?thesis
      using step run len by simp
  next
    case False
    then have nj: "\<not> oks ! j" and acc: "acceptable msg" by simp_all
    define oks1 where "oks1 = oks[j := True]"
    have rest1: "Suc j + length msgs \<le> length oks1" using rest by (simp add: oks1_def)
    from Cons.IH [OF rest1, of ret] obtain oks' where
      run: "Update_loop (Suc j) msgs oks1 ret
              = (oks', Return (ret \<and> (\<forall>k<length msgs. oks1 ! (Suc j + k) \<or> acceptable (msgs ! k))))"
      and len: "length oks' = length oks1"
      and tab: "\<forall>k<length oks1. oks' ! k
                  = (oks1 ! k \<or> (Suc j \<le> k \<and> k < Suc j + length msgs
                                 \<and> acceptable (msgs ! (k - Suc j))))"
      by blast
    have step: "Update_loop j (msg # msgs) oks ret = Update_loop (Suc j) msgs oks1 ret"
      using nj acc j by (auto simp: oks1_def acceptable_def split: option.splits)
    have same: "oks1 ! (Suc j + k) = oks ! (Suc j + k)" for k
      by (simp add: oks1_def)
    have "\<forall>k<length oks. oks' ! k
            = (oks ! k \<or> (j \<le> k \<and> k < j + length (msg # msgs)
                           \<and> acceptable ((msg # msgs) ! (k - j))))"
    proof (intro allI impI)
      fix k assume k: "k < length oks"
      show "oks' ! k = (oks ! k \<or> (j \<le> k \<and> k < j + length (msg # msgs)
                           \<and> acceptable ((msg # msgs) ! (k - j))))"
      proof (cases "k = j")
        case True
        with tab k acc show ?thesis by (auto simp: oks1_def)
      next
        case False
        with tab k show ?thesis
          by (cases "j \<le> k") (auto simp: nth_Cons' Suc_diff_Suc oks1_def)
      qed
    qed
    moreover have "(ret \<and> (\<forall>k<length msgs. oks1 ! (Suc j + k) \<or> acceptable (msgs ! k)))
          = (ret \<and> (\<forall>k<length (msg # msgs). oks ! (j + k) \<or> acceptable ((msg # msgs) ! k)))"
      unfolding same using acc all_Suc [of "\<lambda>k. oks ! (j + k) \<or> acceptable ((msg # msgs) ! k)"]
      by simp
    moreover have "length oks' = length oks" using len by (simp add: oks1_def)
    ultimately show ?thesis
      using step run by simp
  qed
qed

lemma Update_result:
  assumes len: "length (ok round) = length (temp_signRound3Messages round)"
  shows "\<exists>oks'. Update round
            = (round\<lparr>ok := oks'\<rparr>,
               Return ((\<forall>k<length (ok round). ok round ! k
                           \<or> acceptable (temp_signRound3Messages round ! k)), None))
          \<and> length oks' = length (ok round)
          \<and> (\<forall>k<length (ok round). oks' ! k
                = (ok round ! k \<or> acceptable (temp_signRound3Messages round ! k)))"
proof -
  have "0 + length (temp_signRound3Messages round) \<le> length (ok round)"
    using len by simp
  from Update_loop_result [OF this, of True] len show ?thesis
    by (auto simp: Update_def)
qed

text \<open>
  Claim C9. \<^verbatim>\<open>Update\<close> is idempotent and monotone: on a round object whose table has
  one slot per message slot, a second \<^verbatim>\<open>Update\<close> on the same messages leaves the table
  as the first left it and returns the same result; a slot that is accepted stays
  accepted; and \<^verbatim>\<open>Update\<close> returns true exactly when every slot is accepted afterwards.
\<close>

theorem Update_idempotent_monotone:
  assumes len: "length (ok round) = length (temp_signRound3Messages round)"
  shows "\<exists>b round'. Update round = (round', Return (b, None))
           \<and> Update round' = (round', Return (b, None))
           \<and> (\<forall>k<length (ok round). ok round ! k \<longrightarrow> ok round' ! k)
           \<and> length (ok round') = length (ok round)
           \<and> (b \<longleftrightarrow> (\<forall>k<length (ok round'). ok round' ! k))"
proof -
  from Update_result [OF len] obtain oks' where
    run: "Update round
            = (round\<lparr>ok := oks'\<rparr>,
               Return ((\<forall>k<length (ok round). ok round ! k
                           \<or> acceptable (temp_signRound3Messages round ! k)), None))"
    and len': "length oks' = length (ok round)"
    and tab: "\<forall>k<length (ok round). oks' ! k
                = (ok round ! k \<or> acceptable (temp_signRound3Messages round ! k))"
    by blast
  define round' where "round' = round\<lparr>ok := oks'\<rparr>"
  have len2: "length (ok round') = length (temp_signRound3Messages round')"
    using len len' by (simp add: round'_def)
  from Update_result [OF len2] obtain oks'' where
    run2: "Update round'
            = (round'\<lparr>ok := oks''\<rparr>,
               Return ((\<forall>k<length (ok round'). ok round' ! k
                           \<or> acceptable (temp_signRound3Messages round' ! k)), None))"
    and len'': "length oks'' = length (ok round')"
    and tab2: "\<forall>k<length (ok round'). oks'' ! k
                = (ok round' ! k \<or> acceptable (temp_signRound3Messages round' ! k))"
    by blast
  have "oks'' = oks'"
  proof (rule nth_equalityI)
    show "length oks'' = length oks'" using len'' by (simp add: round'_def)
  next
    fix k assume "k < length oks''"
    then have k: "k < length (ok round)" using len'' len' by (simp add: round'_def)
    with tab2 tab len' show "oks'' ! k = oks' ! k" by (auto simp: round'_def)
  qed
  then have fixp: "round'\<lparr>ok := oks''\<rparr> = round'" by (simp add: round'_def)
  have res: "(\<forall>k<length (ok round'). ok round' ! k
                 \<or> acceptable (temp_signRound3Messages round' ! k))
           = (\<forall>k<length (ok round). ok round ! k
                 \<or> acceptable (temp_signRound3Messages round ! k))"
    using tab len' by (auto simp: round'_def)
  have all: "(\<forall>k<length (ok round). ok round ! k
                 \<or> acceptable (temp_signRound3Messages round ! k))
           = (\<forall>k<length (ok round'). ok round' ! k)"
    using tab len' by (auto simp: round'_def)
  have r1: "Update round = (round', Return (\<forall>k<length (ok round'). ok round' ! k, None))"
    using run unfolding all round'_def [symmetric] .
  have r2: "Update round' = (round', Return (\<forall>k<length (ok round'). ok round' ! k, None))"
    using run2 unfolding fixp res all .
  have mono: "\<forall>k<length (ok round). ok round ! k \<longrightarrow> ok round' ! k"
    using tab by (simp add: round'_def)
  have l: "length (ok round') = length (ok round)"
    using len' by (simp add: round'_def)
  from r1 r2 mono l show ?thesis by blast
qed


text \<open>
  Witness of C9 on the instance: the share of party 0 is accepted, the slot of party 1
  stays accepted, the message of party 2 is not a broadcast and is not accepted; the
  result is false, twice.
\<close>

theorem Update_idempotent_monotone_witness:
  "length (ok Z7_collecting) = length (temp_signRound3Messages Z7_collecting)
   \<and> Update Z7_collecting = (Z7_collecting\<lparr>ok := [True, True, False]\<rparr>, Return (False, None))
   \<and> Update (Z7_collecting\<lparr>ok := [True, True, False]\<rparr>)
       = (Z7_collecting\<lparr>ok := [True, True, False]\<rparr>, Return (False, None))
   \<and> (\<exists>b round'. Update Z7_collecting = (round', Return (b, None))
           \<and> Update round' = (round', Return (b, None))
           \<and> (\<forall>k<length (ok Z7_collecting). ok Z7_collecting ! k \<longrightarrow> ok round' ! k)
           \<and> length (ok round') = length (ok Z7_collecting)
           \<and> (b \<longleftrightarrow> (\<forall>k<length (ok round'). ok round' ! k)))"
proof -
  have len: "length (ok Z7_collecting) = length (temp_signRound3Messages Z7_collecting)"
    by (simp add: Z7_collecting_def Z7_party_def)
  have first: "Update Z7_collecting
                 = (Z7_collecting\<lparr>ok := [True, True, False]\<rparr>, Return (False, None))"
    by (simp add: Update_def CanAccept_def NewSignRound3Message_def Z7_collecting_def
          Z7_party_def)
  have second: "Update (Z7_collecting\<lparr>ok := [True, True, False]\<rparr>)
                  = (Z7_collecting\<lparr>ok := [True, True, False]\<rparr>, Return (False, None))"
    by (simp add: Update_def CanAccept_def NewSignRound3Message_def Z7_collecting_def
          Z7_party_def)
  from Update_idempotent_monotone [OF len] len first second show ?thesis by blast
qed

section \<open>The started flag\<close>

lemma Start_sets_started: "started (fst (Start env round))"
  by (simp add: Start_def Let_def begin_round_def resetOK_def
        split: prod.splits loop_exit.splits outcome.splits sum.splits)

lemma Start_sets_number: "\<not> started round \<Longrightarrow> number (fst (Start env round)) = 3"
  by (simp add: Start_def Let_def begin_round_def resetOK_def
        split: prod.splits loop_exit.splits outcome.splits sum.splits)

lemma Start_when_started:
  "started round \<Longrightarrow>
     Start env round = (round, Return (Some (WrapError round ''round already started'' [])))"
  by (simp add: Start_def)

lemma Update_keeps_started: "started (fst (Update round)) = started round"
  by (simp add: Update_def split: prod.splits outcome.splits)

text \<open>
  Claim C10. \<^verbatim>\<open>Start\<close> marks the round started, and sets its number to 3, before any
  validation, and no failure clears the flag: whatever the first \<^verbatim>\<open>Start\<close> does
  (return nil, return an error, panic), the round object it leaves is started, a second
  \<^verbatim>\<open>Start\<close> on it returns the already-started error and changes nothing,
  \<^verbatim>\<open>Update\<close> keeps the flag, and \<^verbatim>\<open>NextRound\<close> clears it.
\<close>

theorem Start_started_flag:
  "started (fst (Start env round))
   \<and> (\<not> started round \<longrightarrow> number (fst (Start env round)) = 3)
   \<and> Start env (fst (Start env round))
       = (fst (Start env round),
          Return (Some \<lparr>err_cause = ''round already started'',
                        err_round = number (fst (Start env round)),
                        err_victim = PartyID (fst (Start env round)),
                        err_culprits = []\<rparr>))
   \<and> started (fst (Update (fst (Start env round))))
   \<and> \<not> started (NextRound (fst (Start env round)))"
  using Start_sets_started [of env round] Start_sets_number [of round env]
        Start_when_started [OF Start_sets_started [of env round], of env]
  by (simp add: Update_keeps_started NextRound_def WrapError_def)

text \<open>
  Witness of C10 on the instance: the first \<^verbatim>\<open>Start\<close> fails on the commitment of
  peer 1, the round is started with number 3, and the second \<^verbatim>\<open>Start\<close> returns the
  already-started error.
\<close>

theorem Start_started_flag_witness:
  "\<not> started Z7_party_bad_commitment
   \<and> (\<exists>e. snd (Start Z7_round_env Z7_party_bad_commitment) = Return (Some e)
          \<and> err_cause e = ''de-commitment verify failed'')
   \<and> started (fst (Start Z7_round_env Z7_party_bad_commitment))
   \<and> number (fst (Start Z7_round_env Z7_party_bad_commitment)) = 3
   \<and> snd (Start Z7_round_env (fst (Start Z7_round_env Z7_party_bad_commitment)))
       = Return (Some \<lparr>err_cause = ''round already started'', err_round = 3,
                       err_victim = \<lparr>pid_Id = ''P'', pid_Index = 0\<rparr>, err_culprits = []\<rparr>)
   \<and> \<not> started (NextRound (fst (Start Z7_round_env Z7_party_bad_commitment)))"
proof -
  have fresh: "\<not> started Z7_party_bad_commitment"
    by (simp add: Z7_party_bad_commitment_def Z7_party_def)
  have victim: "PartyID (fst (Start Z7_round_env Z7_party_bad_commitment))
                  = \<lparr>pid_Id = ''P'', pid_Index = 0\<rparr>"
    by (simp add: Start_def begin_round_def aggregate_R_def resetOK_def check_peer_def
          WrapError_def Z7_party_bad_commitment_def Z7_defs)
  have failed: "\<exists>e. snd (Start Z7_round_env Z7_party_bad_commitment) = Return (Some e)
                  \<and> err_cause e = ''de-commitment verify failed''"
    by (simp add: Start_def begin_round_def aggregate_R_def resetOK_def check_peer_def
          WrapError_def Z7_party_bad_commitment_def Z7_defs)
  from Start_started_flag [of Z7_round_env Z7_party_bad_commitment] fresh victim failed
  show ?thesis by simp
qed

end
